theory Spec2Isabelle
  imports Main
begin

section \<open>Python strings and the library functions the code calls\<close>

text \<open>
  A Python \<open>str\<close> is a sequence of Unicode code points, so user text is a list of
  code points. Fixed ASCII identifiers of the source (rule ids, threat types, error
  codes) stay Isabelle strings.
\<close>

type_synonym ustr = "nat list"

definition ascii :: "string \<Rightarrow> ustr" where
  "ascii s = map of_char s"

text \<open>
  Three library functions depend on tables that are not part of the repository: the
  Unicode lower-casing of text that is not pure ASCII (\<open>str.lower\<close>), the Unicode
  alphanumeric property behind \<open>\w\<close> for code points above 127, and the parser of
  \<open>uuid.UUID\<close>. They are parameters of the model; on ASCII input the model computes
  the first two itself.
\<close>

record runtime =
  unicode_lower :: "ustr \<Rightarrow> ustr"
  unicode_alnum :: "nat \<Rightarrow> bool"
  uuid_parses :: "ustr \<Rightarrow> bool"

text \<open>\<open>str.isspace\<close>, which is also the class \<open>\s\<close> of \<open>re\<close> and what \<open>str.strip\<close> removes.\<close>

definition is_space :: "nat \<Rightarrow> bool" where
  "is_space c \<longleftrightarrow>
     (9 \<le> c \<and> c \<le> 13) \<or> (28 \<le> c \<and> c \<le> 32) \<or> c = 133 \<or> c = 160 \<or> c = 5760 \<or>
     (8192 \<le> c \<and> c \<le> 8202) \<or> c = 8232 \<or> c = 8233 \<or> c = 8239 \<or> c = 8287 \<or> c = 12288"

definition str_strip :: "ustr \<Rightarrow> ustr" where
  "str_strip s = rev (dropWhile is_space (rev (dropWhile is_space s)))"

definition ascii_lower :: "nat \<Rightarrow> nat" where
  "ascii_lower c = (if 65 \<le> c \<and> c \<le> 90 then c + 32 else c)"

definition str_lower :: "runtime \<Rightarrow> ustr \<Rightarrow> ustr" where
  "str_lower U s = (if list_all (\<lambda>c. c < 128) s then map ascii_lower s else unicode_lower U s)"

text \<open>\<open>\w\<close> on a \<open>str\<close> pattern: a letter, a digit or the underscore.\<close>

definition is_word :: "runtime \<Rightarrow> nat \<Rightarrow> bool" where
  "is_word U c \<longleftrightarrow>
     (if c < 128
      then (48 \<le> c \<and> c \<le> 57) \<or> (65 \<le> c \<and> c \<le> 90) \<or> c = 95 \<or> (97 \<le> c \<and> c \<le> 122)
      else unicode_alnum U c)"

text \<open>The operator \<open>in\<close> on two strings: substring containment.\<close>

fun starts_with :: "ustr \<Rightarrow> ustr \<Rightarrow> bool" where
  "starts_with [] s = True"
| "starts_with (p # ps) [] = False"
| "starts_with (p # ps) (c # cs) = (p = c \<and> starts_with ps cs)"

fun str_contains :: "ustr \<Rightarrow> ustr \<Rightarrow> bool" where
  "str_contains needle [] = (needle = [])"
| "str_contains needle (c # cs) = (starts_with needle (c # cs) \<or> str_contains needle cs)"

text \<open>\<open>html.escape\<close> with its default \<open>quote=True\<close>.\<close>

definition escape_char :: "nat \<Rightarrow> ustr" where
  "escape_char c =
     (if c = 38 then ascii ''&amp;''
      else if c = 60 then ascii ''&lt;''
      else if c = 62 then ascii ''&gt;''
      else if c = 34 then ascii ''&quot;''
      else if c = 39 then ascii ''&#x27;''
      else [c])"

definition html_escape :: "ustr \<Rightarrow> ustr" where
  "html_escape s = concat (map escape_char s)"

subsection \<open>Regular expressions\<close>

text \<open>
  Every pattern of the source is a sequence of single-character classes, each taken
  once or under one of the quantifiers \<open>*\<close>, \<open>+\<close>, \<open>*?\<close>, with \<open>$\<close> as the only anchor.
  The groups with alternatives occur only under \<open>re.search\<close> and are written as one
  pattern per alternative. The matcher is the backtracking matcher of \<open>re\<close>: a greedy
  quantifier tries the longest repetition first, a lazy one the shortest.

  \<open>IChr c\<close> is a lower-case ASCII letter \<open>c\<close> of a pattern compiled with IGNORECASE:
  beside both cases of the letter it matches the dotted and dotless i (304, 305) for
  \<open>i\<close>, the long s (383) for \<open>s\<close> and the Kelvin sign (8490) for \<open>k\<close>.
  \<open>AnyChar\<close> is the dot under DOTALL.
\<close>

datatype cclass =
    Chr nat
  | IChr nat
  | Range nat nat
  | Space
  | Word
  | AnyChar
  | AnyOf "cclass list"
  | NoneOf "cclass list"

datatype item = One cclass | Star cclass | Plus cclass | LazyStar cclass | Eol

type_synonym pattern = "item list"

fun cmatch :: "runtime \<Rightarrow> cclass \<Rightarrow> nat \<Rightarrow> bool" where
  "cmatch U (Chr c) x = (x = c)"
| "cmatch U (IChr c) x =
     (x = c \<or> x + 32 = c \<or> (c = 105 \<and> (x = 304 \<or> x = 305)) \<or> (c = 115 \<and> x = 383) \<or>
      (c = 107 \<and> x = 8490))"
| "cmatch U (Range lo hi) x = (lo \<le> x \<and> x \<le> hi)"
| "cmatch U Space x = is_space x"
| "cmatch U Word x = is_word U x"
| "cmatch U AnyChar x = True"
| "cmatch U (AnyOf ks) x = list_ex (\<lambda>k. cmatch U k x) ks"
| "cmatch U (NoneOf ks) x = (\<not> list_ex (\<lambda>k. cmatch U k x) ks)"

text \<open>
  \<open>pmatch U p s\<close> matches \<open>p\<close> at the start of \<open>s\<close> and returns what follows the
  match that \<open>re\<close> finds first, or \<open>None\<close> when there is none. \<open>$\<close> matches at the
  end of the text and before a final newline.
\<close>

fun pmatch :: "runtime \<Rightarrow> pattern \<Rightarrow> ustr \<Rightarrow> ustr option" where
  "pmatch U [] s = Some s"
| "pmatch U (One k # r) [] = None"
| "pmatch U (One k # r) (c # cs) = (if cmatch U k c then pmatch U r cs else None)"
| "pmatch U (Plus k # r) [] = None"
| "pmatch U (Plus k # r) (c # cs) = (if cmatch U k c then pmatch U (Star k # r) cs else None)"
| "pmatch U (Star k # r) [] = pmatch U r []"
| "pmatch U (Star k # r) (c # cs) =
     (if cmatch U k c
      then (case pmatch U (Star k # r) cs of Some t \<Rightarrow> Some t | None \<Rightarrow> pmatch U r (c # cs))
      else pmatch U r (c # cs))"
| "pmatch U (LazyStar k # r) [] = pmatch U r []"
| "pmatch U (LazyStar k # r) (c # cs) =
     (case pmatch U r (c # cs) of Some t \<Rightarrow> Some t
      | None \<Rightarrow> if cmatch U k c then pmatch U (LazyStar k # r) cs else None)"
| "pmatch U (Eol # r) s = (if s = [] \<or> s = [10] then pmatch U r s else None)"

text \<open>\<open>re.search\<close>, as the truth value the source tests: a match at some position.\<close>

fun re_search :: "runtime \<Rightarrow> pattern \<Rightarrow> ustr \<Rightarrow> bool" where
  "re_search U p [] = (case pmatch U p [] of Some t \<Rightarrow> True | None \<Rightarrow> False)"
| "re_search U p (c # cs) =
     (case pmatch U p (c # cs) of Some t \<Rightarrow> True | None \<Rightarrow> re_search U p cs)"

text \<open>
  \<open>re.sub\<close> with a replacement text without escapes: scan from the left, replace the
  match found at the current position and go on behind it; where nothing matches,
  copy one character. An empty match is replaced and the next character copied.
\<close>

function re_sub :: "runtime \<Rightarrow> pattern \<Rightarrow> ustr \<Rightarrow> ustr \<Rightarrow> ustr" where
  "re_sub U p repl s =
     (case pmatch U p s of
        Some t \<Rightarrow>
          if length t < length s then repl @ re_sub U p repl t
          else (case s of [] \<Rightarrow> repl | c # cs \<Rightarrow> repl @ c # re_sub U p repl cs)
      | None \<Rightarrow> (case s of [] \<Rightarrow> [] | c # cs \<Rightarrow> c # re_sub U p repl cs))"
  by pat_completeness auto
termination
  by (relation "measure (\<lambda>(U, p, repl, s). length s)") auto

declare re_sub.simps [simp del]

text \<open>A literal of a pattern compiled with IGNORECASE; the source writes them in lower case.\<close>

definition ci :: "string \<Rightarrow> pattern" where
  "ci s = map (\<lambda>ch. One (if 97 \<le> (of_char ch :: nat) \<and> (of_char ch :: nat) \<le> 122
                          then IChr (of_char ch) else Chr (of_char ch))) s"

section \<open>Exceptions\<close>

text \<open>
  The message texts of the source are Japanese string literals. Each literal is one
  constructor here, and a formatted message carries the values it interpolates.
\<close>

datatype message =
    M_name_required  \<comment> \<open>BR-001 text of the command, the validator and TaskName\<close>
  | M_user_required  \<comment> \<open>create_task_command.py, user id missing\<close>
  | M_timestamp_future  \<comment> \<open>create_task_command.py, timestamp later than the bound\<close>
  | M_request_id_format  \<comment> \<open>create_task_command.py, request id is not a UUID\<close>
  | M_validation_failed  \<comment> \<open>task_creation_domain_service.py, validation failed\<close>
  | M_name_blank  \<comment> \<open>validator, BR-001 for a whitespace-only name\<close>
  | M_name_too_long nat  \<comment> \<open>validator, BR-004 with the current length\<close>
  | M_forbidden_content  \<comment> \<open>validator, BR-005\<close>
  | M_reserved_word string  \<comment> \<open>validator, BR-RESERVED with the reserved word\<close>
  | M_inappropriate  \<comment> \<open>validator, BR-CONTENT\<close>
  | M_user_id_needed  \<comment> \<open>validator, BR-CONTEXT-USER\<close>
  | M_enter_name  \<comment> \<open>TaskName, detail of the empty name\<close>
  | M_blank_invalid  \<comment> \<open>TaskName, detail of the whitespace-only name\<close>
  | M_name_max_length  \<comment> \<open>TaskName, BR-004\<close>
  | M_current_length nat  \<comment> \<open>TaskName, detail of BR-004\<close>
  | M_datetime_future  \<comment> \<open>DateTimeValue, value later than the bound\<close>
  | M_task_id_empty  \<comment> \<open>TaskId, empty value\<close>
  | M_task_id_format ustr  \<comment> \<open>TaskId, value is not a UUID\<close>
  | M_status_invalid ustr  \<comment> \<open>TaskStatus, value is not one of the enumeration\<close>
  | M_inv_004  \<comment> \<open>Task, INV-004: created later than updated\<close>
  | M_security_problem  \<comment> \<open>error payload of a security exception\<close>
  | M_security_detail  \<comment> \<open>detail of that payload\<close>
  | M_create_failed  \<comment> \<open>error payload of a creation exception\<close>
  | M_unexpected  \<comment> \<open>error payload of any other exception\<close>
  | M_task_added  \<comment> \<open>success payload\<close>

text \<open>
  The exceptions that reach an \<open>except\<close> clause of the modelled code. A validation
  exception carries its message and its violations, which the error payload shows; the
  messages of the other exceptions are only logged.
  \<open>TaskBusinessRuleViolationException\<close> is a subclass of \<open>TaskValidationException\<close>,
  \<open>TaskFactoryException\<close> one of \<open>TaskCreationException\<close>.
\<close>

datatype exn =
    TaskValidationException message "message list"
  | TaskBusinessRuleViolationException message "message list"
  | TaskSecurityException
  | TaskCreationException
  | TaskFactoryException
  | ValueError
  | TypeError

section \<open>Value objects of the security check (security\_result.py)\<close>

datatype SecurityRiskLevel = NONE | LOW | MEDIUM | HIGH | CRITICAL

datatype SecurityAction = ALLOW | SANITIZE | REJECT | AUDIT

text \<open>The description of a threat is a fixed text per threat type; the one of
  PRIVILEGE\_ESCALATION names the keyword that was found.\<close>

record SecurityThreat =
  threat_type :: string
  threat_keyword :: "string option"
  risk_level :: SecurityRiskLevel

datatype reason =
    R_html_escape
  | R_dangerous_pattern nat  \<comment> \<open>with the index of the pattern in \<open>dangerous_patterns\<close>\<close>
  | R_strict_chars
  | R_length_limit

record Modification =
  original :: ustr
  modified :: ustr
  mod_reason :: reason

record SanitizedInput =
  clean_input :: ustr
  modifications :: "Modification list"
  sanitized_risk_level :: SecurityRiskLevel

record SecurityCheckResult =
  is_passed :: bool
  detected_threats :: "SecurityThreat list"
  recommended_action :: SecurityAction

definition get_critical_threats :: "SecurityCheckResult \<Rightarrow> SecurityThreat list" where
  "get_critical_threats r = filter (\<lambda>t. risk_level t = CRITICAL) (detected_threats r)"

section \<open>TaskCreationContext (task\_validation\_domain\_service.py)\<close>

record TaskCreationContext =
  ctx_user_id :: ustr
  ctx_request_id :: "ustr option"

section \<open>TaskSecurityDomainService\<close>

datatype SanitizationPolicy = STRICT | MODERATE | LENIENT

definition sanitize_html :: "ustr \<Rightarrow> ustr \<times> Modification list" where
  "sanitize_html input_text =
     (let sanitized = html_escape input_text
      in (sanitized,
          if sanitized \<noteq> input_text
          then [\<lparr>original = input_text, modified = sanitized, mod_reason = R_html_escape\<rparr>]
          else []))"

text \<open>The four \<open>dangerous_patterns\<close> with their replacements, all compiled with
  IGNORECASE and DOTALL.\<close>

definition quote_class :: cclass where
  "quote_class = AnyOf [Chr 34, Chr 39]"

definition dangerous_patterns :: "(pattern \<times> ustr) list" where
  "dangerous_patterns =
     [(ci ''<script'' @ [Star (NoneOf [Chr 62]), One (Chr 62), LazyStar AnyChar] @ ci ''</script>'',
       []),
      (ci ''javascript:'', ascii ''text:''),
      (ci ''on'' @ [Plus Word, Star Space, One (Chr 61), Star Space, One quote_class,
                    Star (NoneOf [Chr 34, Chr 39]), One quote_class],
       []),
      (ci ''<iframe'' @ [Star (NoneOf [Chr 62]), One (Chr 62), LazyStar AnyChar] @ ci ''</iframe>'',
       [])]"

text \<open>The loop over the patterns: \<open>i\<close> is the index of the head of the remaining list.\<close>

fun sanitize_scripts_loop ::
  "runtime \<Rightarrow> nat \<Rightarrow> (pattern \<times> ustr) list \<Rightarrow> ustr \<Rightarrow> Modification list \<Rightarrow> ustr \<times> Modification list"
where
  "sanitize_scripts_loop U i [] sanitized mods = (sanitized, mods)"
| "sanitize_scripts_loop U i ((p, repl) # rest) sanitized mods =
     (let new_sanitized = re_sub U p repl sanitized
      in if new_sanitized \<noteq> sanitized
         then sanitize_scripts_loop U (Suc i) rest new_sanitized
                (mods @ [\<lparr>original = sanitized, modified = new_sanitized,
                          mod_reason = R_dangerous_pattern i\<rparr>])
         else sanitize_scripts_loop U (Suc i) rest sanitized mods)"

definition sanitize_scripts :: "runtime \<Rightarrow> ustr \<Rightarrow> ustr \<times> Modification list" where
  "sanitize_scripts U input_text = sanitize_scripts_loop U 0 dangerous_patterns input_text []"

text \<open>The pattern of the strict policy: one character outside the allow-list.\<close>

definition strict_class :: cclass where
  "strict_class =
     NoneOf [Range 97 122, Range 65 90, Range 48 57, Range 12352 12447,
             Range 12448 12543, Range 19968 40879, Space, Chr 46, Chr 45, Chr 95,
             Chr 44, Chr 33, Chr 63, Chr 40, Chr 41, Chr 65288, Chr 65289]"

definition allowed_pattern :: pattern where
  "allowed_pattern = [One strict_class]"

definition sanitize_special_chars ::
  "runtime \<Rightarrow> ustr \<Rightarrow> SanitizationPolicy \<Rightarrow> ustr \<times> Modification list" where
  "sanitize_special_chars U input_text policy =
     (if policy = STRICT
      then (let cleaned = re_sub U allowed_pattern [] input_text
            in if cleaned \<noteq> input_text
               then (cleaned, [\<lparr>original = input_text, modified = cleaned,
                                 mod_reason = R_strict_chars\<rparr>])
               else (input_text, []))
      else (input_text, []))"

definition apply_whitelist_filter :: "ustr \<Rightarrow> SanitizationPolicy \<Rightarrow> ustr \<times> Modification list" where
  "apply_whitelist_filter input_text policy = (input_text, [])"

definition MAX_LENGTH :: nat where
  "MAX_LENGTH = 100"

definition apply_length_limit :: "ustr \<Rightarrow> ustr \<times> Modification list" where
  "apply_length_limit input_text =
     (if length input_text > MAX_LENGTH
      then (let truncated = take MAX_LENGTH input_text
            in (truncated, [\<lparr>original = input_text, modified = truncated,
                              mod_reason = R_length_limit\<rparr>]))
      else (input_text, []))"

text \<open>Whether a reason text contains one of the \<open>risk_keywords\<close>: the texts of the HTML
  escape and of a dangerous pattern do, the other two do not.\<close>

fun has_risk_keyword :: "reason \<Rightarrow> bool" where
  "has_risk_keyword R_html_escape = True"
| "has_risk_keyword (R_dangerous_pattern i) = True"
| "has_risk_keyword R_strict_chars = False"
| "has_risk_keyword R_length_limit = False"

definition calculate_risk_level :: "Modification list \<Rightarrow> SecurityRiskLevel" where
  "calculate_risk_level mods =
     (if mods = [] then NONE
      else let high_risk_count = length (filter (\<lambda>m. has_risk_keyword (mod_reason m)) mods)
           in if high_risk_count > 2 then HIGH
              else if high_risk_count > 0 then MEDIUM
              else if length mods > 3 then MEDIUM
              else LOW)"

definition sanitize_task_input :: "runtime \<Rightarrow> ustr \<Rightarrow> SanitizationPolicy \<Rightarrow> SanitizedInput" where
  "sanitize_task_input U raw_input sanitization_policy =
     (let (c1, m1) = sanitize_html raw_input;
          (c2, m2) = sanitize_scripts U c1;
          (c3, m3) = sanitize_special_chars U c2 sanitization_policy;
          (c4, m4) = apply_whitelist_filter c3 sanitization_policy;
          (c5, m5) = apply_length_limit c4;
          mods = m1 @ m2 @ m3 @ m4 @ m5
      in \<lparr>clean_input = c5, modifications = mods,
          sanitized_risk_level = (if mods \<noteq> [] then calculate_risk_level mods else NONE)\<rparr>)"

text \<open>The detectors. A loop that appends one threat at the first matching pattern and
  breaks appends it exactly when some pattern matches.\<close>

definition xss_payload_patterns :: "pattern list" where
  "xss_payload_patterns =
     [ci ''<script'' @ [Star (NoneOf [Chr 62]), One (Chr 62)],
      ci ''javascript:'',
      ci ''alert'' @ [Star Space, One (Chr 40)],
      ci ''eval'' @ [Star Space, One (Chr 40)]]"

definition sql_payload_patterns :: "pattern list" where
  "sql_payload_patterns =
     [ci ''union'' @ [Plus Space] @ ci ''select'',
      ci ''drop'' @ [Plus Space] @ ci ''table'',
      ci [CHR 0x27, CHR '';'']]"

definition detect_malicious_payloads :: "runtime \<Rightarrow> ustr \<Rightarrow> SecurityThreat list" where
  "detect_malicious_payloads U input_text =
     (if list_ex (\<lambda>p. re_search U p input_text) xss_payload_patterns
      then [\<lparr>threat_type = ''XSS'', threat_keyword = None, risk_level = HIGH\<rparr>] else []) @
     (if list_ex (\<lambda>p. re_search U p input_text) sql_payload_patterns
      then [\<lparr>threat_type = ''SQL_INJECTION'', threat_keyword = None, risk_level = CRITICAL\<rparr>]
      else [])"

definition detect_abnormal_patterns :: "ustr \<Rightarrow> SecurityThreat list" where
  "detect_abnormal_patterns input_text =
     (if length input_text > 1000
      then [\<lparr>threat_type = ''ABNORMAL_LENGTH'', threat_keyword = None, risk_level = MEDIUM\<rparr>]
      else []) @
     (if list_ex (\<lambda>c. c < 32 \<and> c \<noteq> 9 \<and> c \<noteq> 10 \<and> c \<noteq> 13) input_text
      then [\<lparr>threat_type = ''CONTROL_CHARS'', threat_keyword = None, risk_level = LOW\<rparr>]
      else [])"

text \<open>
  The source compares \<open>len(set(text))\<close> with the floating-point product
  \<open>len(text) * 0.1\<close>. For every length below \<open>2^50\<close> the product rounds to a value that
  is above an integer \<open>d\<close> exactly when \<open>10 * d < len(text)\<close>, which is what is written here.
\<close>

definition detect_data_attacks :: "ustr \<Rightarrow> SecurityThreat list" where
  "detect_data_attacks input_text =
     (if 10 * length (remdups input_text) < length input_text \<and> length input_text > 50
      then [\<lparr>threat_type = ''REPETITIVE_DATA'', threat_keyword = None, risk_level = LOW\<rparr>]
      else [])"

definition admin_keywords :: "string list" where
  "admin_keywords = [''admin'', ''root'', ''system'', ''config'']"

definition check_permission_constraints ::
  "runtime \<Rightarrow> ustr \<Rightarrow> TaskCreationContext \<Rightarrow> SecurityThreat list" where
  "check_permission_constraints U input_text context =
     (if ctx_user_id context \<noteq> ascii ''admin'' \<and> ctx_user_id context \<noteq> ascii ''system''
      then (case find (\<lambda>keyword. str_contains (ascii keyword) (str_lower U input_text))
                      admin_keywords of
              Some keyword \<Rightarrow>
                [\<lparr>threat_type = ''PRIVILEGE_ESCALATION'', threat_keyword = Some keyword,
                  risk_level = MEDIUM\<rparr>]
            | None \<Rightarrow> [])
      else [])"

text \<open>
  \<open>max\<close> over members of \<open>SecurityRiskLevel\<close>. The class is a plain \<open>Enum\<close> and defines
  no order, so the first comparison \<open>max\<close> makes raises \<open>TypeError\<close>; with a single
  element \<open>max\<close> compares nothing and returns it.
\<close>

fun max_risk_level :: "SecurityRiskLevel list \<Rightarrow> exn + SecurityRiskLevel" where
  "max_risk_level [] = Inl ValueError"
| "max_risk_level [x] = Inr x"
| "max_risk_level (x # y # ys) = Inl TypeError"

definition determine_recommended_action :: "SecurityThreat list \<Rightarrow> exn + SecurityAction" where
  "determine_recommended_action threats =
     (if threats = [] then Inr ALLOW
      else (case max_risk_level (map risk_level threats) of
              Inl e \<Rightarrow> Inl e
            | Inr max_risk \<Rightarrow>
                if max_risk = CRITICAL then Inr REJECT
                else if max_risk = HIGH then Inr SANITIZE
                else if max_risk = MEDIUM then Inr AUDIT
                else Inr ALLOW))"

definition check_security_constraints ::
  "runtime \<Rightarrow> ustr \<Rightarrow> TaskCreationContext \<Rightarrow> exn + SecurityCheckResult" where
  "check_security_constraints U input_text context =
     (let threats = detect_malicious_payloads U input_text @ detect_abnormal_patterns input_text @
                    detect_data_attacks input_text @
                    check_permission_constraints U input_text context
      in case determine_recommended_action threats of
           Inl e \<Rightarrow> Inl e
         | Inr action \<Rightarrow>
             Inr \<lparr>is_passed = (length threats = 0), detected_threats = threats,
                  recommended_action = action\<rparr>)"

section \<open>Value objects of the validation (validation\_result.py)\<close>

datatype ValidationSeverity = SEV_LOW | SEV_MEDIUM | SEV_HIGH | SEV_CRITICAL

record ValidationViolation =
  rule_id :: string
  v_message :: message
  severity :: ValidationSeverity
  field_name :: string

record ValidationResult =
  is_valid :: bool
  violations :: "ValidationViolation list"

text \<open>The constructor refuses a failed result without violations.\<close>

definition ValidationResult_init :: "bool \<Rightarrow> ValidationViolation list \<Rightarrow> exn + ValidationResult" where
  "ValidationResult_init valid vs =
     (if \<not> valid \<and> vs = [] then Inl ValueError
      else Inr \<lparr>is_valid = valid, violations = vs\<rparr>)"

definition get_error_messages :: "ValidationResult \<Rightarrow> message list" where
  "get_error_messages r = map v_message (violations r)"

section \<open>TaskValidationDomainService\<close>

definition RESERVED_WORDS :: "string list" where
  "RESERVED_WORDS = [''admin'', ''system'', ''root'', ''null'', ''undefined'',
                     ''script'', ''alert'', ''eval'', ''function'']"

text \<open>Each of the three \<open>INAPPROPRIATE_PATTERNS\<close> is a group of alternatives (with a
  common tail in the first); it is listed as its alternatives.\<close>

definition INAPPROPRIATE_PATTERNS :: "pattern list list" where
  "INAPPROPRIATE_PATTERNS =
     [map (\<lambda>w. ci w @ [Star Space, One (AnyOf [Chr 58, Chr 61])])
          [''password'', ''secret'', ''token'', ''key''],
      [ci ''credit'' @ [Star Space] @ ci ''card'', ci ''social'' @ [Star Space] @ ci ''security''],
      [ci ''hack'', ci ''crack'', ci ''exploit'']]"

definition validate_basic_rules :: "ustr \<Rightarrow> ValidationViolation list" where
  "validate_basic_rules task_name =
     (if task_name = []
      then [\<lparr>rule_id = ''BR-001'', v_message = M_name_required, severity = SEV_CRITICAL,
              field_name = ''task_name''\<rparr>]
      else
        (if str_strip task_name = []
         then [\<lparr>rule_id = ''BR-001'', v_message = M_name_blank, severity = SEV_CRITICAL,
                 field_name = ''task_name''\<rparr>]
         else []) @
        (if length (str_strip task_name) > 100
         then [\<lparr>rule_id = ''BR-004'', v_message = M_name_too_long (length (str_strip task_name)),
                 severity = SEV_HIGH, field_name = ''task_name''\<rparr>]
         else []))"

definition xss_rule_patterns :: "pattern list" where
  "xss_rule_patterns =
     [ci ''<script'' @ [Star (NoneOf [Chr 62]), One (Chr 62)],
      ci ''javascript:'',
      ci ''on'' @ [Plus Word, Star Space, One (Chr 61)],
      ci ''<iframe'' @ [Star (NoneOf [Chr 62]), One (Chr 62)],
      ci ''eval'' @ [Star Space, One (Chr 40)],
      ci ''alert'' @ [Star Space, One (Chr 40)]]"

definition sql_rule_patterns :: "pattern list" where
  "sql_rule_patterns =
     [ci ''union'' @ [Plus Space] @ ci ''select'',
      ci ''drop'' @ [Plus Space] @ ci ''table'',
      ci ''insert'' @ [Plus Space] @ ci ''into'',
      ci ''delete'' @ [Plus Space] @ ci ''from'',
      ci ''update'' @ [Plus Space] @ ci ''set'',
      ci ''--'' @ [Star Space, Eol],
      ci [CHR 0x27, CHR '';'']]"

definition br005 :: ValidationViolation where
  "br005 = \<lparr>rule_id = ''BR-005'', v_message = M_forbidden_content, severity = SEV_CRITICAL,
            field_name = ''task_name''\<rparr>"

definition validate_security_rules :: "runtime \<Rightarrow> ustr \<Rightarrow> ValidationViolation list" where
  "validate_security_rules U task_name =
     (if list_ex (\<lambda>p. re_search U p task_name) xss_rule_patterns then [br005] else []) @
     (if list_ex (\<lambda>p. re_search U p task_name) sql_rule_patterns then [br005] else [])"

definition validate_business_rules :: "runtime \<Rightarrow> ustr \<Rightarrow> ValidationViolation list" where
  "validate_business_rules U task_name =
     (let task_name_lower = str_strip (str_lower U task_name)
      in map (\<lambda>reserved_word.
                \<lparr>rule_id = ''BR-RESERVED'', v_message = M_reserved_word reserved_word,
                 severity = SEV_MEDIUM, field_name = ''task_name''\<rparr>)
             (filter (\<lambda>reserved_word. str_contains (ascii reserved_word) task_name_lower)
                     RESERVED_WORDS)) @
     (if list_ex (\<lambda>alternatives. list_ex (\<lambda>p. re_search U p task_name) alternatives)
                 INAPPROPRIATE_PATTERNS
      then [\<lparr>rule_id = ''BR-CONTENT'', v_message = M_inappropriate, severity = SEV_HIGH,
              field_name = ''task_name''\<rparr>]
      else [])"

definition validate_context_rules :: "TaskCreationContext \<Rightarrow> ValidationViolation list" where
  "validate_context_rules context =
     (if ctx_user_id context = []
      then [\<lparr>rule_id = ''BR-CONTEXT-USER'', v_message = M_user_id_needed, severity = SEV_HIGH,
              field_name = ''user_id''\<rparr>]
      else [])"

definition validate_task_creation ::
  "runtime \<Rightarrow> ustr \<Rightarrow> TaskCreationContext \<Rightarrow> exn + ValidationResult" where
  "validate_task_creation U task_name context =
     (let vs = validate_basic_rules task_name @ validate_security_rules U task_name @
               validate_business_rules U task_name @ validate_context_rules context
      in ValidationResult_init (length vs = 0) vs)"

section \<open>Value objects of the entity\<close>

subsection \<open>TaskName\<close>

definition name_patterns :: "pattern list" where
  "name_patterns =
     [ci ''<script'' @ [LazyStar AnyChar, One (Chr 62), LazyStar AnyChar] @ ci ''</script>'',
      ci ''javascript:'',
      ci ''on'' @ [Plus Word, Star Space, One (Chr 61)],
      ci ''<iframe'' @ [LazyStar AnyChar, One (Chr 62), LazyStar AnyChar] @ ci ''</iframe>'']"

definition sanitize_input :: "runtime \<Rightarrow> ustr \<Rightarrow> ustr" where
  "sanitize_input U v = str_strip (foldl (\<lambda>sanitized p. re_sub U p [] sanitized) (html_escape v) name_patterns)"

text \<open>The constructor of TaskName; the result is the stored value.\<close>

definition TaskName_init :: "runtime \<Rightarrow> ustr \<Rightarrow> exn + ustr" where
  "TaskName_init U v =
     (if v = [] then Inl (TaskBusinessRuleViolationException M_name_required [M_enter_name])
      else let trimmed_value = str_strip v
           in if trimmed_value = []
              then Inl (TaskBusinessRuleViolationException M_name_required [M_blank_invalid])
              else if length trimmed_value > MAX_LENGTH
              then Inl (TaskBusinessRuleViolationException M_name_max_length
                          [M_current_length (length trimmed_value)])
              else Inr (sanitize_input U trimmed_value))"

subsection \<open>TaskId\<close>

definition TaskId_init :: "runtime \<Rightarrow> ustr \<Rightarrow> exn + ustr" where
  "TaskId_init U v =
     (if v = [] then Inl (TaskValidationException M_task_id_empty [])
      else if \<not> uuid_parses U v then Inl (TaskValidationException (M_task_id_format v) [])
      else Inr v)"

subsection \<open>TaskStatus\<close>

datatype TaskStatusEnum = PENDING | COMPLETED | ON_HOLD

text \<open>The values of the enumeration are Japanese words, given by their code points.\<close>

fun enum_value :: "TaskStatusEnum \<Rightarrow> ustr" where
  "enum_value PENDING = [26410, 23436, 20102]"
| "enum_value COMPLETED = [23436, 20102]"
| "enum_value ON_HOLD = [20445, 30041]"

definition TaskStatus_init :: "ustr option \<Rightarrow> exn + TaskStatusEnum" where
  "TaskStatus_init v =
     (case v of
        None \<Rightarrow> Inr PENDING
      | Some x \<Rightarrow>
          (case find (\<lambda>status. enum_value status = x) [PENDING, COMPLETED, ON_HOLD] of
             None \<Rightarrow> Inl (TaskValidationException (M_status_invalid x) [])
           | Some matching_status \<Rightarrow> Inr matching_status))"

definition TaskStatus_pending :: "exn + TaskStatusEnum" where
  "TaskStatus_pending = TaskStatus_init (Some (enum_value PENDING))"

subsection \<open>Dates and times\<close>

text \<open>
  A naive \<open>datetime\<close>: the whole seconds of the calendar fields and the microsecond
  field, compared field by field. Every value the clock returns has a microsecond
  field below a million.
\<close>

datatype datetime = DateTime (seconds: int) (microsecond: nat)

definition dt_less :: "datetime \<Rightarrow> datetime \<Rightarrow> bool" where
  "dt_less a b \<longleftrightarrow> seconds a < seconds b \<or> (seconds a = seconds b \<and> microsecond a < microsecond b)"

text \<open>\<open>datetime.replace(microsecond=v)\<close> refuses a value outside \<open>0..999999\<close>.\<close>

definition replace_microsecond :: "datetime \<Rightarrow> nat \<Rightarrow> exn + datetime" where
  "replace_microsecond d v = (if v \<le> 999999 then Inr (DateTime (seconds d) v) else Inl ValueError)"

text \<open>The constructor of DateTimeValue (and of CreatedAt and UpdatedAt); \<open>now\<close> is what
  \<open>datetime.now()\<close> returns in it.\<close>

definition DateTimeValue_init :: "datetime \<Rightarrow> datetime option \<Rightarrow> exn + datetime" where
  "DateTimeValue_init now v =
     (case v of
        None \<Rightarrow> Inr now
      | Some x \<Rightarrow>
          (case replace_microsecond now (microsecond now + 100000) of
             Inl e \<Rightarrow> Inl e
           | Inr bound \<Rightarrow>
               if dt_less bound x then Inl (TaskValidationException M_datetime_future [])
               else Inr x))"

section \<open>The Task entity and its event\<close>

record Task =
  task_id :: ustr
  task_name :: ustr
  status :: TaskStatusEnum
  created_at :: datetime
  updated_at :: datetime

text \<open>What the process draws from outside while it creates a task: the two generated
  UUIDs and the clock readings of the three timestamps.\<close>

record env =
  uuid_task :: ustr
  uuid_event :: ustr
  now_created :: datetime
  now_updated :: datetime
  now_occurred :: datetime

text \<open>The constructor with all five attributes given. Value objects are always true
  in a condition, so of the invariants only INV-004 can fail.\<close>

definition Task_init ::
  "ustr \<Rightarrow> ustr \<Rightarrow> TaskStatusEnum \<Rightarrow> datetime \<Rightarrow> datetime \<Rightarrow> exn + Task" where
  "Task_init tid name st created updated =
     (if dt_less updated created then Inl (TaskValidationException M_inv_004 [])
      else Inr \<lparr>task_id = tid, task_name = name, status = st, created_at = created,
                updated_at = updated\<rparr>)"

definition Task_create :: "runtime \<Rightarrow> env \<Rightarrow> ustr \<Rightarrow> exn + Task" where
  "Task_create U E name =
     (case TaskId_init U (uuid_task E) of
        Inl e \<Rightarrow> Inl e
      | Inr tid \<Rightarrow>
          (case TaskStatus_pending of
             Inl e \<Rightarrow> Inl e
           | Inr st \<Rightarrow>
               (case DateTimeValue_init (now_created E) None of
                  Inl e \<Rightarrow> Inl e
                | Inr now_c \<Rightarrow>
                    (case DateTimeValue_init (now_updated E) None of
                       Inl e \<Rightarrow> Inl e
                     | Inr now_u \<Rightarrow> Task_init tid name st now_c now_u))))"

text \<open>Identity of the entity: \<open>Task.__eq__\<close> compares the task ids.\<close>

definition Task_eq :: "Task \<Rightarrow> Task \<Rightarrow> bool" where
  "Task_eq a b \<longleftrightarrow> task_id a = task_id b"

record TaskCreatedEvent =
  event_id :: ustr
  ev_task_id :: ustr
  ev_task_name :: ustr
  ev_user_id :: ustr
  ev_created_at :: datetime
  occurred_at :: datetime

definition create_domain_event :: "env \<Rightarrow> Task \<Rightarrow> ustr \<Rightarrow> TaskCreatedEvent" where
  "create_domain_event E t user_id =
     \<lparr>event_id = uuid_event E, ev_task_id = task_id t, ev_task_name = task_name t,
      ev_user_id = user_id, ev_created_at = created_at t, occurred_at = now_occurred E\<rparr>"

section \<open>TaskFactory\<close>

record TaskCreationResult =
  res_task :: Task
  res_event :: TaskCreatedEvent
  res_success :: bool

text \<open>Each method of the factory turns every exception into a TaskFactoryException.\<close>

definition factory_create_task :: "runtime \<Rightarrow> env \<Rightarrow> ustr \<Rightarrow> ustr \<Rightarrow> exn + Task" where
  "factory_create_task U E name user_id =
     (case TaskName_init U name of
        Inl e \<Rightarrow> Inl TaskFactoryException
      | Inr validated_task_name \<Rightarrow>
          (case Task_create U E validated_task_name of
             Inl e \<Rightarrow> Inl TaskFactoryException
           | Inr t \<Rightarrow> Inr t))"

definition create_task_with_event ::
  "runtime \<Rightarrow> env \<Rightarrow> ustr \<Rightarrow> ustr \<Rightarrow> exn + TaskCreationResult" where
  "create_task_with_event U E name user_id =
     (case factory_create_task U E name user_id of
        Inl e \<Rightarrow> Inl TaskFactoryException
      | Inr t \<Rightarrow>
          Inr \<lparr>res_task = t, res_event = create_domain_event E t user_id, res_success = True\<rparr>)"

text \<open>\<open>now_c\<close> and \<open>now_u\<close> are the clock readings of the two timestamp constructors.
  The stored timestamps are the ISO texts of the datetimes, which \<open>fromisoformat\<close>
  reads back unchanged; the model keeps the datetimes.\<close>

definition restore_task ::
  "runtime \<Rightarrow> datetime \<Rightarrow> datetime \<Rightarrow> ustr \<Rightarrow> ustr \<Rightarrow> ustr \<Rightarrow> datetime \<Rightarrow> datetime \<Rightarrow> exn + Task"
where
  "restore_task U now_c now_u tid name st created updated =
     (case TaskId_init U tid of
        Inl e \<Rightarrow> Inl TaskFactoryException
      | Inr restored_task_id \<Rightarrow>
      (case TaskName_init U name of
        Inl e \<Rightarrow> Inl TaskFactoryException
      | Inr restored_task_name \<Rightarrow>
      (case TaskStatus_init (Some st) of
        Inl e \<Rightarrow> Inl TaskFactoryException
      | Inr restored_status \<Rightarrow>
      (case DateTimeValue_init now_c (Some created) of
        Inl e \<Rightarrow> Inl TaskFactoryException
      | Inr restored_created_at \<Rightarrow>
      (case DateTimeValue_init now_u (Some updated) of
        Inl e \<Rightarrow> Inl TaskFactoryException
      | Inr restored_updated_at \<Rightarrow>
      (case Task_init restored_task_id restored_task_name restored_status
              restored_created_at restored_updated_at of
        Inl e \<Rightarrow> Inl TaskFactoryException
      | Inr t \<Rightarrow> Inr t))))))"

definition validate_task_creation_prerequisites :: "ustr \<Rightarrow> ustr \<Rightarrow> bool" where
  "validate_task_creation_prerequisites name user_id =
     (if name = [] \<or> user_id = [] then False
      else if length (str_strip name) = 0 \<or> length (str_strip name) > 100 then False
      else if length (str_strip user_id) = 0 then False
      else True)"

section \<open>TaskCreationDomainService\<close>

definition validate_input_parameters :: "ustr \<Rightarrow> TaskCreationContext \<Rightarrow> exn + unit" where
  "validate_input_parameters name creation_context =
     (if \<not> validate_task_creation_prerequisites name (ctx_user_id creation_context)
      then Inl TaskCreationException else Inr ())"

text \<open>The body of the \<open>try\<close> block of \<open>create_new_task\<close>.\<close>

definition create_new_task_body ::
  "runtime \<Rightarrow> env \<Rightarrow> ustr \<Rightarrow> TaskCreationContext \<Rightarrow> exn + TaskCreationResult" where
  "create_new_task_body U E name creation_context =
     (case validate_input_parameters name creation_context of
        Inl e \<Rightarrow> Inl e
      | Inr _ \<Rightarrow>
      (case validate_task_creation U name creation_context of
        Inl e \<Rightarrow> Inl e
      | Inr validation_result \<Rightarrow>
          if \<not> is_valid validation_result
          then Inl (TaskValidationException M_validation_failed
                      (get_error_messages validation_result))
          else
            let sanitized_input = sanitize_task_input U name STRICT
            in (case check_security_constraints U (clean_input sanitized_input) creation_context of
                  Inl e \<Rightarrow> Inl e
                | Inr security_result \<Rightarrow>
                    if \<not> is_passed security_result \<and> get_critical_threats security_result \<noteq> []
                    then Inl TaskSecurityException
                    else create_task_with_event U E (clean_input sanitized_input)
                           (ctx_user_id creation_context))))"

text \<open>The \<open>except\<close> clauses: validation and security exceptions pass, every other
  exception becomes a TaskCreationException.\<close>

fun is_TaskValidationException :: "exn \<Rightarrow> bool" where
  "is_TaskValidationException (TaskValidationException m vs) = True"
| "is_TaskValidationException (TaskBusinessRuleViolationException m vs) = True"
| "is_TaskValidationException e = False"

definition create_new_task ::
  "runtime \<Rightarrow> env \<Rightarrow> ustr \<Rightarrow> TaskCreationContext \<Rightarrow> exn + TaskCreationResult" where
  "create_new_task U E name creation_context =
     (case create_new_task_body U E name creation_context of
        Inr r \<Rightarrow> Inr r
      | Inl e \<Rightarrow>
          if is_TaskValidationException e then Inl e
          else if e = TaskSecurityException then Inl e
          else Inl TaskCreationException)"

section \<open>CreateTaskCommand\<close>

record CreateTaskCommand =
  cmd_task_name :: ustr
  cmd_user_id :: ustr
  cmd_request_id :: ustr
  cmd_timestamp :: datetime

text \<open>The structural validation, for arguments of the declared types; \<open>now\<close> is
  the clock reading of the timestamp check.\<close>

definition validate_structure ::
  "runtime \<Rightarrow> datetime \<Rightarrow> ustr \<Rightarrow> ustr \<Rightarrow> ustr option \<Rightarrow> datetime option \<Rightarrow> exn + unit" where
  "validate_structure U now name user_id request_id timestamp =
     (if name = [] then Inl (TaskValidationException M_name_required [])
      else if user_id = [] then Inl (TaskValidationException M_user_required [])
      else
        (case (case timestamp of
                 None \<Rightarrow> Inr ()
               | Some ts \<Rightarrow>
                   (case replace_microsecond now (microsecond now + 100000) of
                      Inl e \<Rightarrow> Inl e
                    | Inr bound \<Rightarrow>
                        if dt_less bound ts
                        then Inl (TaskValidationException M_timestamp_future [])
                        else Inr ())) of
           Inl e \<Rightarrow> Inl e
         | Inr _ \<Rightarrow>
             (case request_id of
                None \<Rightarrow> Inr ()
              | Some r \<Rightarrow>
                  if \<not> uuid_parses U r
                  then Inl (TaskValidationException M_request_id_format [])
                  else Inr ())))"

text \<open>The constructor; \<open>fresh_id\<close> and \<open>now2\<close> are the generated request id and the
  clock reading that replace a missing request id and a missing timestamp.\<close>

definition CreateTaskCommand_init ::
  "runtime \<Rightarrow> datetime \<Rightarrow> ustr \<Rightarrow> datetime \<Rightarrow> ustr \<Rightarrow> ustr \<Rightarrow> ustr option \<Rightarrow> datetime option
   \<Rightarrow> exn + CreateTaskCommand" where
  "CreateTaskCommand_init U now fresh_id now2 name user_id request_id timestamp =
     (case validate_structure U now name user_id request_id timestamp of
        Inl e \<Rightarrow> Inl e
      | Inr _ \<Rightarrow>
          Inr \<lparr>cmd_task_name = name, cmd_user_id = user_id,
               cmd_request_id = (case request_id of
                                   None \<Rightarrow> fresh_id
                                 | Some r \<Rightarrow> if r = [] then fresh_id else r),
               cmd_timestamp = (case timestamp of None \<Rightarrow> now2 | Some ts \<Rightarrow> ts)\<rparr>)"

definition to_creation_context :: "CreateTaskCommand \<Rightarrow> TaskCreationContext" where
  "to_creation_context command =
     \<lparr>ctx_user_id = cmd_user_id command, ctx_request_id = Some (cmd_request_id command)\<rparr>"

section \<open>The responses\<close>

record CreateTaskResponse =
  resp_task_id :: ustr
  resp_task_name :: ustr
  resp_status :: ustr
  resp_created_at :: datetime
  resp_message :: message
  resp_request_id :: ustr

definition CreateTaskResponse_init ::
  "runtime \<Rightarrow> ustr \<Rightarrow> ustr \<Rightarrow> ustr \<Rightarrow> datetime \<Rightarrow> message \<Rightarrow> ustr \<Rightarrow> exn + CreateTaskResponse" where
  "CreateTaskResponse_init U tid name st created msg request_id =
     (if tid = [] \<or> name = [] \<or> st = [] then Inl ValueError
      else if \<not> uuid_parses U tid then Inl ValueError
      else Inr \<lparr>resp_task_id = tid, resp_task_name = name, resp_status = st,
                resp_created_at = created, resp_message = msg, resp_request_id = request_id\<rparr>)"

definition from_task_creation_result ::
  "runtime \<Rightarrow> TaskCreationResult \<Rightarrow> ustr \<Rightarrow> exn + CreateTaskResponse" where
  "from_task_creation_result U result request_id =
     (let t = res_task result
      in CreateTaskResponse_init U (task_id t) (task_name t) (enum_value (status t))
           (created_at t) M_task_added request_id)"

record ErrorDetail =
  detail_field :: string
  detail_code :: string
  detail_message :: message

record CreateTaskErrorResponse =
  error_code :: string
  error_message :: message
  details :: "ErrorDetail list"
  err_request_id :: ustr

text \<open>The violations of an exception; only validation exceptions have the attribute.\<close>

fun exn_violations :: "exn \<Rightarrow> message list" where
  "exn_violations (TaskValidationException m vs) = vs"
| "exn_violations (TaskBusinessRuleViolationException m vs) = vs"
| "exn_violations e = []"

fun exn_message :: "exn \<Rightarrow> message option" where
  "exn_message (TaskValidationException m vs) = Some m"
| "exn_message (TaskBusinessRuleViolationException m vs) = Some m"
| "exn_message e = None"

definition from_validation_exception :: "message \<Rightarrow> message list \<Rightarrow> ustr \<Rightarrow> CreateTaskErrorResponse" where
  "from_validation_exception m vs request_id =
     \<lparr>error_code = ''VALIDATION_ERROR'', error_message = m,
      details = map (\<lambda>violation. \<lparr>detail_field = ''task_name'', detail_code = ''VALIDATION_FAILED'',
                                    detail_message = violation\<rparr>) vs,
      err_request_id = request_id\<rparr>"

definition from_security_exception :: "ustr \<Rightarrow> CreateTaskErrorResponse" where
  "from_security_exception request_id =
     \<lparr>error_code = ''SECURITY_ERROR'', error_message = M_security_problem,
      details = [\<lparr>detail_field = ''task_name'', detail_code = ''SECURITY_THREAT'',
                  detail_message = M_security_detail\<rparr>],
      err_request_id = request_id\<rparr>"

definition from_business_rule_violation :: "message \<Rightarrow> message list \<Rightarrow> ustr \<Rightarrow> CreateTaskErrorResponse" where
  "from_business_rule_violation m vs request_id =
     \<lparr>error_code = ''BUSINESS_RULE_VIOLATION'', error_message = m,
      details = map (\<lambda>violation. \<lparr>detail_field = ''task_name'',
                                    detail_code = ''BUSINESS_RULE_VIOLATION'',
                                    detail_message = violation\<rparr>) vs,
      err_request_id = request_id\<rparr>"

definition from_infrastructure_error :: "message \<Rightarrow> ustr \<Rightarrow> CreateTaskErrorResponse" where
  "from_infrastructure_error m request_id =
     \<lparr>error_code = ''INFRASTRUCTURE_ERROR'', error_message = m, details = [],
      err_request_id = request_id\<rparr>"

definition from_unknown_error :: "ustr \<Rightarrow> CreateTaskErrorResponse" where
  "from_unknown_error request_id =
     \<lparr>error_code = ''UNKNOWN_ERROR'', error_message = M_unexpected, details = [],
      err_request_id = request_id\<rparr>"

section \<open>The collaborators: TaskRepositoryImpl and EventPublisherImpl\<close>

record task_data =
  data_task_id :: ustr
  data_task_name :: ustr
  data_status :: ustr
  data_created_at :: datetime
  data_updated_at :: datetime

type_synonym storage = "ustr \<rightharpoonup> task_data"

definition task_to_storage_dict :: "Task \<Rightarrow> task_data" where
  "task_to_storage_dict t =
     \<lparr>data_task_id = task_id t, data_task_name = task_name t,
      data_status = enum_value (status t), data_created_at = created_at t,
      data_updated_at = updated_at t\<rparr>"

definition storage_dict_to_task :: "runtime \<Rightarrow> datetime \<Rightarrow> datetime \<Rightarrow> task_data \<Rightarrow> exn + Task" where
  "storage_dict_to_task U now_c now_u d =
     restore_task U now_c now_u (data_task_id d) (data_task_name d) (data_status d)
       (data_created_at d) (data_updated_at d)"

text \<open>\<open>save\<close> returns the task and the new storage; nothing in it raises.\<close>

definition save :: "storage \<Rightarrow> Task \<Rightarrow> exn + (Task \<times> storage)" where
  "save st t = Inr (t, st(task_id t \<mapsto> task_to_storage_dict t))"

text \<open>\<open>find_by_id\<close> returns \<open>None\<close> for an unknown id and whenever the restoration
  raises; \<open>now_c\<close> and \<open>now_u\<close> are the clock readings of the restoration.\<close>

definition find_by_id :: "runtime \<Rightarrow> datetime \<Rightarrow> datetime \<Rightarrow> storage \<Rightarrow> ustr \<Rightarrow> Task option" where
  "find_by_id U now_c now_u st tid =
     (case st tid of
        None \<Rightarrow> None
      | Some d \<Rightarrow>
          (case storage_dict_to_task U now_c now_u d of
             Inl e \<Rightarrow> None
           | Inr t \<Rightarrow> Some t))"

text \<open>\<open>publish\<close> appends the event to the log of published events and refuses an
  event without id.\<close>

definition publish :: "TaskCreatedEvent list \<Rightarrow> TaskCreatedEvent \<Rightarrow> exn + TaskCreatedEvent list" where
  "publish log ev = (if event_id ev = [] then Inl ValueError else Inr (log @ [ev]))"

section \<open>TaskCreationApplicationService\<close>

record app_state =
  repository :: storage
  published :: "TaskCreatedEvent list"

datatype response = Created CreateTaskResponse | Failed CreateTaskErrorResponse

text \<open>The body of the \<open>try\<close> block of \<open>create_task\<close>, with the state it leaves.\<close>

definition create_task_body ::
  "runtime \<Rightarrow> env \<Rightarrow> app_state \<Rightarrow> CreateTaskCommand \<Rightarrow> (exn + CreateTaskResponse) \<times> app_state" where
  "create_task_body U E S command =
     (case create_new_task U E (cmd_task_name command) (to_creation_context command) of
        Inl e \<Rightarrow> (Inl e, S)
      | Inr task_creation_result \<Rightarrow>
      (case save (repository S) (res_task task_creation_result) of
        Inl e \<Rightarrow> (Inl e, S)
      | Inr (saved_task, st') \<Rightarrow>
      (case publish (published S) (res_event task_creation_result) of
        Inl e \<Rightarrow> (Inl e, S\<lparr>repository := st'\<rparr>)
      | Inr log' \<Rightarrow>
          (from_task_creation_result U task_creation_result (cmd_request_id command),
           S\<lparr>repository := st', published := log'\<rparr>))))"

text \<open>
  The \<open>except\<close> clauses in the order of the source. The clause for
  TaskValidationException comes first and also takes its subclass
  TaskBusinessRuleViolationException, so the clause written for the subclass is never
  chosen; TaskFactoryException is taken by the clause of TaskCreationException.
\<close>

fun handle_exception :: "exn \<Rightarrow> ustr \<Rightarrow> CreateTaskErrorResponse" where
  "handle_exception (TaskValidationException m vs) request_id =
     from_validation_exception m vs request_id"
| "handle_exception (TaskBusinessRuleViolationException m vs) request_id =
     from_validation_exception m vs request_id"
| "handle_exception TaskSecurityException request_id = from_security_exception request_id"
| "handle_exception TaskCreationException request_id =
     from_infrastructure_error M_create_failed request_id"
| "handle_exception TaskFactoryException request_id =
     from_infrastructure_error M_create_failed request_id"
| "handle_exception ValueError request_id = from_unknown_error request_id"
| "handle_exception TypeError request_id = from_unknown_error request_id"

definition create_task ::
  "runtime \<Rightarrow> env \<Rightarrow> app_state \<Rightarrow> CreateTaskCommand \<Rightarrow> response \<times> app_state" where
  "create_task U E S command =
     (case create_task_body U E S command of
        (Inr r, S') \<Rightarrow> (Created r, S')
      | (Inl e, S') \<Rightarrow> (Failed (handle_exception e (cmd_request_id command)), S'))"

text \<open>What the caller reads off a response.\<close>

fun response_code :: "response \<Rightarrow> string option" where
  "response_code (Created r) = None"
| "response_code (Failed r) = Some (error_code r)"

fun response_details :: "response \<Rightarrow> message list" where
  "response_details (Created r) = []"
| "response_details (Failed r) = map detail_message (details r)"

fun response_status :: "response \<Rightarrow> ustr option" where
  "response_status (Created r) = Some (resp_status r)"
| "response_status (Failed r) = None"

section \<open>Concrete inputs\<close>

text \<open>
  A runtime for evaluating the model on ASCII text: there the two Unicode tables are
  never consulted, and the UUID parser is given by the canonical form that \<open>uuid4\<close>
  prints (groups of 8, 4, 4, 4 and 12 hexadecimal digits), which \<open>uuid.UUID\<close> accepts.
\<close>

definition is_hex :: "nat \<Rightarrow> bool" where
  "is_hex c \<longleftrightarrow> (48 \<le> c \<and> c \<le> 57) \<or> (65 \<le> c \<and> c \<le> 70) \<or> (97 \<le> c \<and> c \<le> 102)"

definition canonical_uuid :: "ustr \<Rightarrow> bool" where
  "canonical_uuid s \<longleftrightarrow>
     length s = 36 \<and> list_all is_hex (take 8 s) \<and> s ! 8 = 45 \<and>
     list_all is_hex (take 4 (drop 9 s)) \<and> s ! 13 = 45 \<and>
     list_all is_hex (take 4 (drop 14 s)) \<and> s ! 18 = 45 \<and>
     list_all is_hex (take 4 (drop 19 s)) \<and> s ! 23 = 45 \<and>
     list_all is_hex (drop 24 s)"

definition ascii_runtime :: runtime where
  "ascii_runtime = \<lparr>unicode_lower = (\<lambda>s. s), unicode_alnum = (\<lambda>c. False),
                     uuid_parses = canonical_uuid\<rparr>"

definition sample_env :: env where
  "sample_env =
     \<lparr>uuid_task = ascii ''3f2b8c1e-9d4a-4c7b-8e21-5a6f7d8c9b0a'',
      uuid_event = ascii ''7c9e6679-7425-40de-944b-e07fc1f90ae7'',
      now_created = DateTime 1700000000 123456,
      now_updated = DateTime 1700000000 123460,
      now_occurred = DateTime 1700000000 123470\<rparr>"

definition empty_state :: app_state where
  "empty_state = \<lparr>repository = Map.empty, published = []\<rparr>"

definition sample_command :: "ustr \<Rightarrow> ustr \<Rightarrow> CreateTaskCommand" where
  "sample_command name user_id =
     \<lparr>cmd_task_name = name, cmd_user_id = user_id,
      cmd_request_id = ascii ''0a1b2c3d-4e5f-4a6b-8c7d-9e0f1a2b3c4d'',
      cmd_timestamp = DateTime 1700000000 123000\<rparr>"

text \<open>The text \<open>' ; DROP TABLE tasks;\<close>, which starts with an apostrophe (code point 39).\<close>

definition drop_table_text :: ustr where
  "drop_table_text = 39 # ascii '' ; DROP TABLE tasks;''"

definition sample_task :: Task where
  "sample_task =
     \<lparr>task_id = ascii ''3f2b8c1e-9d4a-4c7b-8e21-5a6f7d8c9b0a'',
      task_name = ascii ''Prepare meeting slides'', status = PENDING,
      created_at = DateTime 1700000000 123456, updated_at = DateTime 1700000000 123460\<rparr>"

section \<open>Facts about the library functions\<close>

lemmas eval_text = ascii_def ci_def is_space_def is_word_def ascii_lower_def str_lower_def

lemma re_sub_Nil: "re_sub U p repl [] = (case pmatch U p [] of Some t \<Rightarrow> repl | None \<Rightarrow> [])"
  by (subst re_sub.simps) (simp split: option.splits)

lemma re_sub_Cons:
  "re_sub U p repl (c # cs) =
     (case pmatch U p (c # cs) of
        Some t \<Rightarrow> if length t < Suc (length cs) then repl @ re_sub U p repl t
                  else repl @ c # re_sub U p repl cs
      | None \<Rightarrow> c # re_sub U p repl cs)"
  by (subst re_sub.simps) (simp split: option.splits)

text \<open>A pattern with a mandatory character class matches only text that has such a
  character, and a substitution leaves text without one unchanged.\<close>

lemma pmatch_needs_char:
  "pmatch U p s = Some t \<Longrightarrow> One k \<in> set p \<Longrightarrow> \<exists>c \<in> set s. cmatch U k c"
  by (induction U p s rule: pmatch.induct) (auto split: if_splits option.splits)

lemma re_sub_no_char:
  assumes "One k \<in> set p" and "\<forall>c \<in> set s. \<not> cmatch U k c"
  shows "re_sub U p repl s = s"
  using assms(2)
proof (induction s)
  case Nil
  have "pmatch U p [] = None"
    using pmatch_needs_char[OF _ assms(1), of U "[]"] by (cases "pmatch U p []") auto
  then show ?case by (simp add: re_sub_Nil)
next
  case (Cons c cs)
  have "pmatch U p (c # cs) = None"
    using pmatch_needs_char[OF _ assms(1), of U "c # cs"] Cons.prems
    by (cases "pmatch U p (c # cs)") auto
  with Cons show ?case by (simp add: re_sub_Cons)
qed

text \<open>Deleting the matches of a single character class is filtering.\<close>

lemma re_sub_one_class: "re_sub U [One k] [] s = filter (\<lambda>c. \<not> cmatch U k c) s"
  by (induction s) (simp_all add: re_sub_Nil re_sub_Cons)

lemma re_search_here: "pmatch U p s = Some t \<Longrightarrow> re_search U p s"
  by (cases s) auto

lemma re_search_append: "re_search U p s \<Longrightarrow> re_search U p (a @ s)"
  by (induction a) (auto split: option.splits)

lemma starts_with_append: "starts_with n s \<Longrightarrow> \<exists>b. s = n @ b"
  by (induction n s rule: starts_with.induct) auto

lemma str_contains_append: "str_contains n s \<Longrightarrow> \<exists>a b. s = a @ n @ b"
proof (induction n s rule: str_contains.induct)
  case (1 needle)
  then show ?case by simp
next
  case (2 needle c cs)
  show ?case
  proof (cases "starts_with needle (c # cs)")
    case True
    then obtain b where "c # cs = needle @ b" using starts_with_append by blast
    then have "c # cs = [] @ needle @ b" by simp
    then show ?thesis by blast
  next
    case False
    with 2 obtain a b where "cs = a @ needle @ b" by auto
    then have "c # cs = (c # a) @ needle @ b" by simp
    then show ?thesis by blast
  qed
qed

lemma html_escape_id:
  "\<forall>c \<in> set s. c \<noteq> 38 \<and> c \<noteq> 60 \<and> c \<noteq> 62 \<and> c \<noteq> 34 \<and> c \<noteq> 39 \<Longrightarrow> html_escape s = s"
  by (induction s) (simp_all add: html_escape_def escape_char_def)

lemma dropWhile_all: "(\<forall>x \<in> set (dropWhile P s). P x) \<longleftrightarrow> (\<forall>x \<in> set s. P x)"
  by (induction s) auto

text \<open>Stripping leaves nothing exactly of the empty and the whitespace-only texts.\<close>

lemma str_strip_Nil_iff: "str_strip s = [] \<longleftrightarrow> list_all is_space s"
  by (simp add: str_strip_def dropWhile_all list_all_iff)

section \<open>The sanitizer\<close>

lemma strict_excludes:
  "cmatch U strict_class 38" "cmatch U strict_class 60" "cmatch U strict_class 62"
  "cmatch U strict_class 34" "cmatch U strict_class 39" "cmatch U strict_class 58"
  "cmatch U strict_class 61"
  by (simp_all add: strict_class_def is_space_def)

lemma allowed_not_special:
  assumes "\<not> cmatch U strict_class c"
  shows "c \<noteq> 38 \<and> c \<noteq> 60 \<and> c \<noteq> 62 \<and> c \<noteq> 34 \<and> c \<noteq> 39 \<and> c \<noteq> 58 \<and> c \<noteq> 61"
  using assms strict_excludes[of U] by auto

text \<open>Each of the four dangerous patterns needs \<open><\<close>, \<open>:\<close> or \<open>=\<close>.\<close>

lemma sanitize_scripts_id:
  assumes "\<forall>c \<in> set s. c \<noteq> 58 \<and> c \<noteq> 60 \<and> c \<noteq> 61"
  shows "sanitize_scripts U s = (s, [])"
proof -
  have a: "\<forall>c \<in> set s. \<not> cmatch U (Chr 60) c" "\<forall>c \<in> set s. \<not> cmatch U (Chr 58) c"
    "\<forall>c \<in> set s. \<not> cmatch U (Chr 61) c"
    using assms by auto
  have p1: "re_sub U (fst (dangerous_patterns ! 0)) r s = s" for r
    by (rule re_sub_no_char[OF _ a(1)]) (simp add: dangerous_patterns_def ci_def)
  have p2: "re_sub U (fst (dangerous_patterns ! 1)) r s = s" for r
    by (rule re_sub_no_char[OF _ a(2)]) (simp add: dangerous_patterns_def ci_def)
  have p3: "re_sub U (fst (dangerous_patterns ! 2)) r s = s" for r
    by (rule re_sub_no_char[OF _ a(3)]) (simp add: dangerous_patterns_def ci_def)
  have p4: "re_sub U (fst (dangerous_patterns ! 3)) r s = s" for r
    by (rule re_sub_no_char[OF _ a(1)]) (simp add: dangerous_patterns_def ci_def)
  show ?thesis
    using p1 p2 p3 p4 by (simp add: sanitize_scripts_def dangerous_patterns_def)
qed

lemma strict_fst:
  "fst (sanitize_special_chars U s STRICT) = filter (\<lambda>x. \<not> cmatch U strict_class x) s"
  by (simp add: sanitize_special_chars_def allowed_pattern_def re_sub_one_class Let_def)

lemma length_limit_fst: "fst (apply_length_limit s) = take MAX_LENGTH s"
  by (simp add: apply_length_limit_def Let_def)

lemma clean_input_eq:
  "clean_input (sanitize_task_input U x STRICT) =
     fst (apply_length_limit
            (fst (sanitize_special_chars U
                    (fst (sanitize_scripts U (fst (sanitize_html x)))) STRICT)))"
  by (simp add: sanitize_task_input_def apply_whitelist_filter_def Let_def split: prod.splits)

text \<open>The clean text of the strict policy has only allowed characters and at most
  \<open>MAX_LENGTH\<close> of them.\<close>

lemma clean_input_allowed:
  "\<forall>c \<in> set (clean_input (sanitize_task_input U x STRICT)). \<not> cmatch U strict_class c"
  by (auto simp: clean_input_eq length_limit_fst strict_fst dest: in_set_takeD)

lemma clean_input_length: "length (clean_input (sanitize_task_input U x STRICT)) \<le> MAX_LENGTH"
  by (simp add: clean_input_eq length_limit_fst)

text \<open>Such a text passes the sanitizer unchanged.\<close>

lemma sanitize_allowed_id:
  assumes "\<forall>c \<in> set s. \<not> cmatch U strict_class c" and "length s \<le> MAX_LENGTH"
  shows "clean_input (sanitize_task_input U s STRICT) = s"
proof -
  have ns: "\<forall>c \<in> set s. c \<noteq> 38 \<and> c \<noteq> 60 \<and> c \<noteq> 62 \<and> c \<noteq> 34 \<and> c \<noteq> 39 \<and> c \<noteq> 58 \<and> c \<noteq> 61"
    using assms(1) allowed_not_special by blast
  have h: "fst (sanitize_html s) = s"
    using ns by (simp add: sanitize_html_def html_escape_id)
  have sc: "sanitize_scripts U s = (s, [])"
    using ns by (intro sanitize_scripts_id) auto
  have f: "filter (\<lambda>x. \<not> cmatch U strict_class x) s = s"
    using assms(1) by (simp add: filter_id_conv)
  show ?thesis
    using assms(2) by (simp add: clean_input_eq h sc strict_fst f length_limit_fst)
qed

lemmas eval_sanitize = clean_input_eq length_limit_fst strict_fst sanitize_html_def
  html_escape_def escape_char_def sanitize_scripts_def dangerous_patterns_def re_sub_Nil
  re_sub_Cons strict_class_def MAX_LENGTH_def quote_class_def Let_def

text \<open>
  Claim C7: sanitization is idempotent. For every text \<open>x\<close>, the clean text of
  \<open>sanitize_task_input\<close> under the strict policy is a fixed point of the sanitizer under
  the same policy: sanitizing it again yields the same clean text.
\<close>

theorem sanitize_task_input_idempotent:
  "clean_input (sanitize_task_input U (clean_input (sanitize_task_input U x STRICT)) STRICT) =
   clean_input (sanitize_task_input U x STRICT)"
  by (rule sanitize_allowed_id[OF clean_input_allowed clean_input_length])

theorem sanitize_task_input_idempotent_witness:
  "clean_input (sanitize_task_input ascii_runtime
     (clean_input (sanitize_task_input ascii_runtime (ascii ''a<b> & javascript:c'') STRICT)) STRICT) =
   ascii ''altbgt amp textc''"
proof -
  have "clean_input (sanitize_task_input ascii_runtime (ascii ''a<b> & javascript:c'') STRICT) =
        ascii ''altbgt amp textc''"
    by (simp add: eval_sanitize eval_text)
  then show ?thesis
    using sanitize_task_input_idempotent[of ascii_runtime "ascii ''a<b> & javascript:c''"] by simp
qed

text \<open>The detector of malicious payloads flags every text that contains the script block.\<close>

lemma script_block_flagged:
  assumes "str_contains (ascii ''<script>alert(1)</script>'') name"
  shows "\<lparr>threat_type = ''XSS'', threat_keyword = None, risk_level = HIGH\<rparr>
           \<in> set (detect_malicious_payloads U name)"
proof -
  obtain a b where n: "name = a @ ascii ''<script>alert(1)</script>'' @ b"
    using str_contains_append[OF assms] by blast
  have m: "pmatch U (ci ''<script'' @ [Star (NoneOf [Chr 62]), One (Chr 62)])
             (ascii ''<script>'' @ (ascii ''alert(1)</script>'' @ b)) =
           Some (ascii ''alert(1)</script>'' @ b)"
    by (simp add: eval_text)
  have "name = a @ (ascii ''<script>'' @ (ascii ''alert(1)</script>'' @ b))"
    using n by (simp add: ascii_def)
  then have "re_search U (ci ''<script'' @ [Star (NoneOf [Chr 62]), One (Chr 62)]) name"
    using re_search_append[OF re_search_here[OF m], of a] by simp
  then show ?thesis
    by (simp add: detect_malicious_payloads_def xss_payload_patterns_def)
qed

text \<open>
  Claim C6: for a name that contains \<open><script>alert(1)</script>\<close> the security
  validator flags an XSS threat and the sanitizer removes the script block entirely.
  The validator does flag it, but the sanitizer escapes the text before it looks for
  script blocks, so the pattern of the block never matches: for the name that is just
  the script block, the clean text still holds the words of the tags and the call
  \<open>alert(1)\<close>.
\<close>

theorem script_block_survives_sanitizer:
  "detect_malicious_payloads U (ascii ''<script>alert(1)</script>'') =
     [\<lparr>threat_type = ''XSS'', threat_keyword = None, risk_level = HIGH\<rparr>]
   \<and> clean_input (sanitize_task_input U (ascii ''<script>alert(1)</script>'') STRICT) =
     ascii ''ltscriptgtalert(1)ltscriptgt''"
  by (simp add: eval_sanitize eval_text detect_malicious_payloads_def xss_payload_patterns_def
      sql_payload_patterns_def)

section \<open>The security check\<close>

lemmas eval_security = check_security_constraints_def detect_malicious_payloads_def
  detect_abnormal_patterns_def detect_data_attacks_def check_permission_constraints_def
  determine_recommended_action_def xss_payload_patterns_def sql_payload_patterns_def
  admin_keywords_def

text \<open>With no threat the action is ALLOW, with one threat it follows the level of that
  threat, and with two or more threats the comparison inside \<open>max\<close> raises.\<close>

lemma determine_recommended_action_none: "determine_recommended_action [] = Inr ALLOW"
  by (simp add: determine_recommended_action_def)

lemma determine_recommended_action_single:
  "determine_recommended_action [t] =
     Inr (if risk_level t = CRITICAL then REJECT else if risk_level t = HIGH then SANITIZE
          else if risk_level t = MEDIUM then AUDIT else ALLOW)"
  by (simp add: determine_recommended_action_def)

lemma determine_recommended_action_many:
  "determine_recommended_action (t # t' # ts) = Inl TypeError"
  by (simp add: determine_recommended_action_def)

text \<open>
  Claim C1: for a non-empty list of detected threats \<open>check_security_constraints\<close>
  returns REJECT if a threat is CRITICAL, else SANITIZE if one is HIGH, else AUDIT if one
  is MEDIUM, else ALLOW. The code takes \<open>max\<close> over risk levels that have no order, so
  it returns no result as soon as two threats are detected: a text with an XSS and an
  SQL pattern (one HIGH and one CRITICAL threat, REJECT by the claim) and a text with a
  control character and an administrator keyword from an ordinary user (one LOW and one
  MEDIUM threat, AUDIT by the claim) both end in a TypeError.
\<close>

theorem check_security_constraints_raises_on_two_threats:
  "check_security_constraints U (ascii ''<script>'' @ [39] @ ascii '';'')
     \<lparr>ctx_user_id = ascii ''admin'', ctx_request_id = None\<rparr> = Inl TypeError
   \<and> check_security_constraints U (ascii ''config'' @ [11])
     \<lparr>ctx_user_id = ascii ''user-123'', ctx_request_id = None\<rparr> = Inl TypeError"
  by (simp add: eval_security eval_text)

section \<open>TaskName\<close>

lemmas eval_name = TaskName_init_def sanitize_input_def str_strip_def html_escape_def
  escape_char_def name_patterns_def re_sub_Nil re_sub_Cons MAX_LENGTH_def

text \<open>
  Claim C8: every constructed TaskName has a stored value that is non-empty after
  trimming and at most 100 characters long. The constructor checks the trimmed input
  and sanitizes afterwards: the input \<open>javascript:\<close> passes the checks and is stored
  as the empty text, and an input of seventeen double quotes is stored as the 102
  characters of their escapes.
\<close>

theorem TaskName_stores_invalid_value:
  "TaskName_init U (ascii ''javascript:'') = Inr []
   \<and> map_sum id length
         (TaskName_init U [34, 34, 34, 34, 34, 34, 34, 34, 34, 34, 34, 34, 34, 34, 34, 34, 34]) =
       Inr 102"
  by (simp add: eval_name eval_text)

section \<open>CreateTaskCommand\<close>

text \<open>While the microsecond field of the clock is below 900000, the structural
  validation returns or raises a validation exception.\<close>

lemma validate_structure_below:
  assumes "microsecond now < 900000"
  shows "validate_structure U now name user_id request_id timestamp = Inr () \<or>
         (\<exists>m. validate_structure U now name user_id request_id timestamp =
                Inl (TaskValidationException m []))"
  using assms
  by (auto simp: validate_structure_def replace_microsecond_def split: option.splits)

text \<open>
  Claim C9: the structural validation is total and raises nothing but a validation
  error, whatever the clock shows. The bound of the timestamp check is built by adding
  100000 to the microsecond field of the clock reading, which \<open>replace\<close> refuses once
  the field is 900000 or more: a request with a timestamp then ends in a ValueError,
  even when the timestamp lies in the past.
\<close>

theorem validate_structure_raises_ValueError:
  "validate_structure U (DateTime 1700000000 900000) (ascii ''Prepare meeting slides'')
     (ascii ''user-123'') None (Some (DateTime 1700000000 0)) = Inl ValueError"
  by (simp add: validate_structure_def replace_microsecond_def ascii_def)

section \<open>The creation pipeline\<close>

lemmas eval_validation = validate_basic_rules_def validate_security_rules_def
  validate_business_rules_def validate_context_rules_def xss_rule_patterns_def
  sql_rule_patterns_def RESERVED_WORDS_def INAPPROPRIATE_PATTERNS_def br005_def str_strip_def

lemma sample_command_sel [simp]:
  "cmd_task_name (sample_command name user_id) = name"
  "cmd_user_id (sample_command name user_id) = user_id"
  by (simp_all add: sample_command_def)

text \<open>When the prerequisites of the factory fail, the request ends as an infrastructure
  error and nothing is stored.\<close>

lemma create_task_prerequisites_fail:
  assumes "\<not> validate_task_creation_prerequisites (cmd_task_name command) (cmd_user_id command)"
  shows "create_task U E S command =
           (Failed (from_infrastructure_error M_create_failed (cmd_request_id command)), S)"
  using assms
  by (simp add: create_task_def create_task_body_def create_new_task_def create_new_task_body_def
      validate_input_parameters_def to_creation_context_def)

text \<open>When they hold and the validator finds a violation, the request ends as a
  validation error with the messages of all violations.\<close>

lemma create_task_validation_fails:
  assumes "validate_basic_rules name @ validate_security_rules U name @
           validate_business_rules U name \<noteq> []"
    and "validate_task_creation_prerequisites name (cmd_user_id command)"
    and "cmd_task_name command = name"
  shows "create_task U E S command =
     (Failed (from_validation_exception M_validation_failed
        (map v_message (validate_basic_rules name @ validate_security_rules U name @
               validate_business_rules U name @
               validate_context_rules (to_creation_context command)))
        (cmd_request_id command)), S)"
  using assms
  by (auto simp: create_task_def create_task_body_def create_new_task_def create_new_task_body_def
      validate_input_parameters_def validate_task_creation_def ValidationResult_init_def
      get_error_messages_def Let_def to_creation_context_def)

lemma prerequisites_blank:
  "list_all is_space name \<Longrightarrow> \<not> validate_task_creation_prerequisites name user_id"
  by (simp add: validate_task_creation_prerequisites_def str_strip_Nil_iff[symmetric])

text \<open>For an empty or whitespace-only name the prerequisites fail, so the request ends
  as an infrastructure error without details, whatever the user id; the constructor of
  the command refuses the empty name before.\<close>

lemma blank_name_response:
  assumes "list_all is_space (cmd_task_name command)"
  shows "create_task U E S command =
           (Failed \<lparr>error_code = ''INFRASTRUCTURE_ERROR'', error_message = M_create_failed,
                    details = [], err_request_id = cmd_request_id command\<rparr>, S)"
  using create_task_prerequisites_fail[of command U E S] prerequisites_blank[OF assms]
  by (simp add: from_infrastructure_error_def)

lemma empty_name_command:
  "CreateTaskCommand_init U now fresh_id now2 [] user_id request_id timestamp =
     Inl (TaskValidationException M_name_required [])"
  by (simp add: CreateTaskCommand_init_def validate_structure_def)

text \<open>The branches of the validator for BR-001 and BR-004 are never taken inside
  \<open>create_new_task\<close>: where the prerequisites hold, the basic rules find nothing.\<close>

lemma basic_rules_after_prerequisites:
  "validate_task_creation_prerequisites name user_id \<Longrightarrow> validate_basic_rules name = []"
  by (auto simp: validate_task_creation_prerequisites_def validate_basic_rules_def
      split: if_splits)

text \<open>No exception ends as BUSINESS\_RULE\_VIOLATION, because the clause written for
  TaskBusinessRuleViolationException stands behind the clause of its superclass; so no
  request does.\<close>

lemma handle_exception_code:
  "error_code (handle_exception e request_id) \<noteq> ''BUSINESS_RULE_VIOLATION''"
  by (cases e)
     (simp_all add: from_validation_exception_def from_security_exception_def
        from_infrastructure_error_def from_unknown_error_def)

lemma create_task_never_business_rule_violation:
  "response_code (fst (create_task U E S command)) \<noteq> Some ''BUSINESS_RULE_VIOLATION''"
  by (cases "create_task_body U E S command")
     (auto simp: create_task_def handle_exception_code split: sum.splits)

text \<open>
  Claim C4: for an empty or whitespace-only name the creation fails with error code
  BUSINESS\_RULE\_VIOLATION and cites BR-001. The code has the parts of that answer: the
  validator reports BR-001 for a blank name, TaskName raises a
  TaskBusinessRuleViolationException for it, and \<open>create_task\<close> has a clause that turns
  that exception into BUSINESS\_RULE\_VIOLATION. None of them decides the request. For
  the name of two spaces from the user \<open>user-123\<close> the prerequisite check of
  \<open>create_new_task\<close> fails before the validator runs, and the request ends with error
  code INFRASTRUCTURE\_ERROR and no details.
\<close>

theorem blank_name_not_business_rule_violation:
  "fst (create_task ascii_runtime sample_env empty_state
          (sample_command [32, 32] (ascii ''user-123''))) =
     Failed \<lparr>error_code = ''INFRASTRUCTURE_ERROR'', error_message = M_create_failed,
             details = [], err_request_id = ascii ''0a1b2c3d-4e5f-4a6b-8c7d-9e0f1a2b3c4d''\<rparr>
   \<and> response_code (fst (create_task ascii_runtime sample_env empty_state
         (sample_command [32, 32] (ascii ''user-123'')))) \<noteq> Some ''BUSINESS_RULE_VIOLATION''
   \<and> validate_basic_rules [32, 32] =
         [\<lparr>rule_id = ''BR-001'', v_message = M_name_blank, severity = SEV_CRITICAL,
           field_name = ''task_name''\<rparr>]
   \<and> TaskName_init ascii_runtime [32, 32] =
         Inl (TaskBusinessRuleViolationException M_name_required [M_blank_invalid])
   \<and> handle_exception (TaskBusinessRuleViolationException M_name_required [M_blank_invalid])
         (ascii ''0a1b2c3d-4e5f-4a6b-8c7d-9e0f1a2b3c4d'') =
       \<lparr>error_code = ''VALIDATION_ERROR'', error_message = M_name_required,
        details = [\<lparr>detail_field = ''task_name'', detail_code = ''VALIDATION_FAILED'',
                    detail_message = M_blank_invalid\<rparr>],
        err_request_id = ascii ''0a1b2c3d-4e5f-4a6b-8c7d-9e0f1a2b3c4d''\<rparr>"
proof -
  have "\<not> validate_task_creation_prerequisites
            (cmd_task_name (sample_command [32, 32] (ascii ''user-123'')))
            (cmd_user_id (sample_command [32, 32] (ascii ''user-123'')))"
    by (simp add: prerequisites_blank is_space_def)
  from create_task_prerequisites_fail[OF this, of ascii_runtime sample_env empty_state]
  show ?thesis
    by (simp add: from_infrastructure_error_def from_validation_exception_def
        sample_command_def validate_basic_rules_def TaskName_init_def str_strip_def
        is_space_def)
qed

text \<open>A request can reach the security check with two threats: the name \<open>config\<close>
  followed by a vertical tab passes the validator and the sanitizer, the check raises
  the TypeError, and the request ends as an infrastructure error.\<close>

lemma config_request_infrastructure_error:
  "fst (create_task ascii_runtime sample_env empty_state
          (sample_command (ascii ''config'' @ [11]) (ascii ''user-123''))) =
     Failed \<lparr>error_code = ''INFRASTRUCTURE_ERROR'', error_message = M_create_failed,
             details = [], err_request_id = ascii ''0a1b2c3d-4e5f-4a6b-8c7d-9e0f1a2b3c4d''\<rparr>"
proof -
  have v: "validate_basic_rules (ascii ''config'' @ [11]) @
           validate_security_rules ascii_runtime (ascii ''config'' @ [11]) @
           validate_business_rules ascii_runtime (ascii ''config'' @ [11]) = []"
    by (simp add: eval_validation eval_text)
  have p: "validate_task_creation_prerequisites (ascii ''config'' @ [11]) (ascii ''user-123'')"
    by (simp add: validate_task_creation_prerequisites_def str_strip_def eval_text)
  have s: "clean_input (sanitize_task_input ascii_runtime (ascii ''config'' @ [11]) STRICT) =
           ascii ''config'' @ [11]"
    by (simp add: eval_sanitize eval_text)
  have c: "check_security_constraints ascii_runtime (ascii ''config'' @ [11])
             \<lparr>ctx_user_id = ascii ''user-123'', ctx_request_id = r\<rparr> = Inl TypeError" for r
    by (simp add: eval_security eval_text)
  have ne: "ascii ''user-123'' \<noteq> []" by (simp add: ascii_def)
  show ?thesis using v p ne
    by (simp add: create_task_def create_task_body_def create_new_task_def
        create_new_task_body_def validate_input_parameters_def validate_task_creation_def
        ValidationResult_init_def validate_context_rules_def s c get_error_messages_def Let_def
        to_creation_context_def sample_command_def from_infrastructure_error_def)
qed

text \<open>The validator finds \<open>drop\s+table\<close> in every name that contains the text.\<close>

lemma drop_table_match:
  "pmatch U (ci ''drop'' @ [Plus Space] @ ci ''table'') (ascii ''DROP TABLE'' @ b) = Some b"
  by (simp add: eval_text)

lemma drop_table_found:
  assumes "str_contains drop_table_text name"
  shows "list_ex (\<lambda>p. re_search U p name) sql_rule_patterns"
proof -
  obtain a b where n: "name = a @ drop_table_text @ b"
    using str_contains_append[OF assms] by blast
  have "drop_table_text @ b = [39, 32, 59, 32] @ (ascii ''DROP TABLE'' @ (ascii '' tasks;'' @ b))"
    by (simp add: drop_table_text_def ascii_def)
  then have "name = (a @ [39, 32, 59, 32]) @ (ascii ''DROP TABLE'' @ (ascii '' tasks;'' @ b))"
    using n by simp
  moreover have "re_search U (ci ''drop'' @ [Plus Space] @ ci ''table'')
                   ((a @ [39, 32, 59, 32]) @ (ascii ''DROP TABLE'' @ (ascii '' tasks;'' @ b)))"
    by (rule re_search_append[OF re_search_here[OF drop_table_match]])
  ultimately have "re_search U (ci ''drop'' @ [Plus Space] @ ci ''table'') name" by simp
  then show ?thesis by (simp add: sql_rule_patterns_def)
qed

lemma drop_table_violation:
  "str_contains drop_table_text name \<Longrightarrow>
   validate_basic_rules name @ validate_security_rules U name @ validate_business_rules U name \<noteq> []"
  using drop_table_found[of name U] by (simp add: validate_security_rules_def)

text \<open>
  Claim C2: a creation request whose name contains \<open>' ; DROP TABLE tasks;\<close> is rejected
  with error code SECURITY\_ERROR. As amended: the request is rejected and nothing is
  stored, but by the business-rule validator, which runs before the security check and
  has the same SQL patterns: the error code is VALIDATION\_ERROR when the prerequisites
  of the factory hold (a user id that is not blank and a trimmed name of at most 100
  characters) and INFRASTRUCTURE\_ERROR otherwise; it is never SECURITY\_ERROR.
\<close>

theorem drop_table_rejected_by_validator:
  assumes "str_contains drop_table_text (cmd_task_name command)"
  shows "response_code (fst (create_task U E S command)) =
           Some (if validate_task_creation_prerequisites (cmd_task_name command)
                      (cmd_user_id command)
                 then ''VALIDATION_ERROR'' else ''INFRASTRUCTURE_ERROR'')
       \<and> snd (create_task U E S command) = S"
proof (cases "validate_task_creation_prerequisites (cmd_task_name command) (cmd_user_id command)")
  case True
  from create_task_validation_fails[OF drop_table_violation[OF assms] True refl, where E = E and S = S] True
  show ?thesis by (simp add: from_validation_exception_def)
next
  case False
  from create_task_prerequisites_fail[OF False, of U E S] False show ?thesis
    by (simp add: from_infrastructure_error_def)
qed

lemma user_123_prerequisites:
  "validate_task_creation_prerequisites (ascii ''x'' @ drop_table_text) (ascii ''user-123'')"
  "validate_task_creation_prerequisites drop_table_text (ascii ''user-123'')"
  by (simp_all add: validate_task_creation_prerequisites_def str_strip_def drop_table_text_def
      eval_text)

theorem drop_table_rejected_by_validator_witness:
  "str_contains drop_table_text
     (cmd_task_name (sample_command (ascii ''x'' @ drop_table_text) (ascii ''user-123'')))
   \<and> response_code (fst (create_task ascii_runtime sample_env empty_state
        (sample_command (ascii ''x'' @ drop_table_text) (ascii ''user-123'')))) =
     Some ''VALIDATION_ERROR''"
proof -
  have h: "str_contains drop_table_text
     (cmd_task_name (sample_command (ascii ''x'' @ drop_table_text) (ascii ''user-123'')))"
    by (simp add: drop_table_text_def ascii_def)
  show ?thesis
    using h user_123_prerequisites(1)
      drop_table_rejected_by_validator[OF h, of ascii_runtime sample_env empty_state]
    by simp
qed

theorem drop_table_not_security_error:
  "response_code (fst (create_task ascii_runtime sample_env empty_state
     (sample_command drop_table_text (ascii ''user-123'')))) = Some ''VALIDATION_ERROR''
   \<and> response_code (fst (create_task ascii_runtime sample_env empty_state
     (sample_command drop_table_text (ascii ''user-123'')))) \<noteq> Some ''SECURITY_ERROR''"
proof -
  have c: "str_contains drop_table_text drop_table_text"
    by (simp add: drop_table_text_def ascii_def)
  have "validate_task_creation_prerequisites drop_table_text
          (cmd_user_id (sample_command drop_table_text (ascii ''user-123'')))"
    using user_123_prerequisites(2) by simp
  from create_task_validation_fails[OF drop_table_violation[OF c] this, where E = sample_env and S = empty_state]
  show ?thesis by (simp add: from_validation_exception_def)
qed

text \<open>The name \<open>admin access\<close> violates nothing but the reserved word \<open>admin\<close>.\<close>

lemma admin_violations:
  "validate_basic_rules (ascii ''admin access'') = []"
  "validate_security_rules U (ascii ''admin access'') = []"
  "validate_business_rules U (ascii ''admin access'') =
     [\<lparr>rule_id = ''BR-RESERVED'', v_message = M_reserved_word ''admin'', severity = SEV_MEDIUM,
       field_name = ''task_name''\<rparr>]"
  by (simp_all add: eval_validation eval_text)

lemma admin_permission:
  assumes "uid \<noteq> ascii ''admin''" "uid \<noteq> ascii ''system''"
  shows "check_permission_constraints U (ascii ''admin access'')
           \<lparr>ctx_user_id = uid, ctx_request_id = r\<rparr> =
         [\<lparr>threat_type = ''PRIVILEGE_ESCALATION'', threat_keyword = Some ''admin'',
           risk_level = MEDIUM\<rparr>]"
  using assms by (simp add: check_permission_constraints_def admin_keywords_def eval_text)

lemma admin_prerequisites:
  "validate_task_creation_prerequisites (ascii ''admin access'') uid \<longleftrightarrow> \<not> list_all is_space uid"
proof -
  have "str_strip (ascii ''admin access'') = ascii ''admin access''"
    by (simp add: str_strip_def eval_text)
  moreover have "uid = [] \<Longrightarrow> list_all is_space uid" by simp
  ultimately show ?thesis
    by (auto simp: validate_task_creation_prerequisites_def str_strip_Nil_iff ascii_def)
qed

lemma admin_access_response:
  assumes n: "cmd_task_name command = ascii ''admin access''"
    and u: "\<not> list_all is_space (cmd_user_id command)"
  shows "create_task U E S command =
     (Failed \<lparr>error_code = ''VALIDATION_ERROR'', error_message = M_validation_failed,
              details = [\<lparr>detail_field = ''task_name'', detail_code = ''VALIDATION_FAILED'',
                          detail_message = M_reserved_word ''admin''\<rparr>],
              err_request_id = cmd_request_id command\<rparr>, S)"
proof -
  have p: "validate_task_creation_prerequisites (ascii ''admin access'') (cmd_user_id command)"
    using u by (simp add: admin_prerequisites)
  have ne: "cmd_user_id command \<noteq> []" using u by auto
  have v: "validate_basic_rules (ascii ''admin access'') @
           validate_security_rules U (ascii ''admin access'') @
           validate_business_rules U (ascii ''admin access'') \<noteq> []"
    by (simp add: admin_violations)
  from create_task_validation_fails[OF v p n, where E = E and S = S] ne show ?thesis
    by (simp add: admin_violations validate_context_rules_def to_creation_context_def
        from_validation_exception_def)
qed

text \<open>
  Claim C3: for the name \<open>admin access\<close> and a user id other than \<open>admin\<close> and
  \<open>system\<close> the permission-constraint detector reports a MEDIUM PRIVILEGE\_ESCALATION
  threat and the creation nevertheless succeeds. As amended: the detector reports
  exactly that threat on the name, but the creation does not succeed, because the
  business-rule validator runs first and \<open>admin\<close> is one of its reserved words. The
  request ends with error code VALIDATION\_ERROR and the reserved word as its only
  detail (with INFRASTRUCTURE\_ERROR and no detail when the user id is blank), and
  nothing is stored.
\<close>

theorem admin_access_rejected:
  assumes n: "cmd_task_name command = ascii ''admin access''"
    and u: "cmd_user_id command \<noteq> ascii ''admin''" "cmd_user_id command \<noteq> ascii ''system''"
  shows "check_permission_constraints U (cmd_task_name command) (to_creation_context command) =
           [\<lparr>threat_type = ''PRIVILEGE_ESCALATION'', threat_keyword = Some ''admin'',
             risk_level = MEDIUM\<rparr>]
       \<and> response_code (fst (create_task U E S command)) =
           Some (if list_all is_space (cmd_user_id command)
                 then ''INFRASTRUCTURE_ERROR'' else ''VALIDATION_ERROR'')
       \<and> response_details (fst (create_task U E S command)) =
           (if list_all is_space (cmd_user_id command) then [] else [M_reserved_word ''admin''])
       \<and> snd (create_task U E S command) = S"
proof (cases "list_all is_space (cmd_user_id command)")
  case True
  then have "\<not> validate_task_creation_prerequisites (cmd_task_name command) (cmd_user_id command)"
    by (simp add: n admin_prerequisites)
  from create_task_prerequisites_fail[OF this, of U E S] True admin_permission[OF u, of U]
  show ?thesis
    by (simp add: n from_infrastructure_error_def to_creation_context_def)
next
  case False
  from admin_access_response[OF n False, of U E S] False admin_permission[OF u, of U]
  show ?thesis
    by (simp add: n to_creation_context_def)
qed

theorem admin_access_rejected_witness:
  "cmd_task_name (sample_command (ascii ''admin access'') (ascii ''user-123'')) =
     ascii ''admin access''
   \<and> cmd_user_id (sample_command (ascii ''admin access'') (ascii ''user-123'')) \<noteq> ascii ''admin''
   \<and> cmd_user_id (sample_command (ascii ''admin access'') (ascii ''user-123'')) \<noteq> ascii ''system''
   \<and> response_code (fst (create_task ascii_runtime sample_env empty_state
        (sample_command (ascii ''admin access'') (ascii ''user-123'')))) = Some ''VALIDATION_ERROR''"
proof -
  have h1: "cmd_task_name (sample_command (ascii ''admin access'') (ascii ''user-123'')) =
     ascii ''admin access''" by simp
  have h2: "cmd_user_id (sample_command (ascii ''admin access'') (ascii ''user-123'')) \<noteq> ascii ''admin''"
    and h3: "cmd_user_id (sample_command (ascii ''admin access'') (ascii ''user-123'')) \<noteq> ascii ''system''"
    by (simp_all add: ascii_def)
  have h4: "\<not> list_all is_space (ascii ''user-123'')"
    by (simp add: eval_text)
  show ?thesis
    using h1 h2 h3 h4
      admin_access_rejected[OF h1 h2 h3, of ascii_runtime sample_env empty_state]
    by simp
qed

theorem admin_access_not_created:
  "check_permission_constraints ascii_runtime (ascii ''admin access'')
     (to_creation_context (sample_command (ascii ''admin access'') (ascii ''user-123''))) =
     [\<lparr>threat_type = ''PRIVILEGE_ESCALATION'', threat_keyword = Some ''admin'',
       risk_level = MEDIUM\<rparr>]
   \<and> fst (create_task ascii_runtime sample_env empty_state
        (sample_command (ascii ''admin access'') (ascii ''user-123''))) =
     Failed \<lparr>error_code = ''VALIDATION_ERROR'', error_message = M_validation_failed,
             details = [\<lparr>detail_field = ''task_name'', detail_code = ''VALIDATION_FAILED'',
                         detail_message = M_reserved_word ''admin''\<rparr>],
             err_request_id = ascii ''0a1b2c3d-4e5f-4a6b-8c7d-9e0f1a2b3c4d''\<rparr>"
proof -
  have h: "\<not> list_all is_space (cmd_user_id (sample_command (ascii ''admin access'') (ascii ''user-123'')))"
    by (simp add: eval_text)
  have a: "ascii ''user-123'' \<noteq> ascii ''admin''" "ascii ''user-123'' \<noteq> ascii ''system''"
    by (simp_all add: ascii_def)
  from admin_access_response[OF _ h, of ascii_runtime sample_env empty_state]
    admin_permission[OF a, of ascii_runtime]
  show ?thesis by (simp add: to_creation_context_def sample_command_def)
qed

text \<open>The stages of the pipeline on the name \<open>Prepare meeting slides\<close>.\<close>

lemma slides_violations:
  "validate_basic_rules (ascii ''Prepare meeting slides'') @
   validate_security_rules U (ascii ''Prepare meeting slides'') @
   validate_business_rules U (ascii ''Prepare meeting slides'') = []"
  by (simp add: eval_validation eval_text)

lemma slides_sanitized:
  "sanitize_task_input U (ascii ''Prepare meeting slides'') STRICT =
    \<lparr>clean_input = ascii ''Prepare meeting slides'', modifications = [],
     sanitized_risk_level = NONE\<rparr>"
  by (simp add: sanitize_task_input_def sanitize_html_def html_escape_def escape_char_def
      sanitize_scripts_def dangerous_patterns_def re_sub_Nil re_sub_Cons eval_text strict_class_def
      MAX_LENGTH_def quote_class_def Let_def sanitize_special_chars_def allowed_pattern_def
      apply_whitelist_filter_def apply_length_limit_def)

lemma slides_security:
  "check_security_constraints U (ascii ''Prepare meeting slides'')
     \<lparr>ctx_user_id = ascii ''user-123'', ctx_request_id = r\<rparr> =
   Inr \<lparr>is_passed = True, detected_threats = [], recommended_action = ALLOW\<rparr>"
  by (simp add: eval_security eval_text)

lemma slides_name:
  "TaskName_init U (ascii ''Prepare meeting slides'') = Inr (ascii ''Prepare meeting slides'')"
  by (simp add: eval_name eval_text)

lemma slides_prerequisites:
  "validate_task_creation_prerequisites (ascii ''Prepare meeting slides'') (ascii ''user-123'')"
  by (simp add: validate_task_creation_prerequisites_def str_strip_def eval_text)

lemma slides_created:
  assumes n: "cmd_task_name command = ascii ''Prepare meeting slides''"
    and u: "cmd_user_id command = ascii ''user-123''"
    and e: "uuid_task E \<noteq> []" "uuid_parses U (uuid_task E)"
      "\<not> dt_less (now_updated E) (now_created E)"
  shows "create_new_task U E (cmd_task_name command) (to_creation_context command) =
     Inr \<lparr>res_task = \<lparr>task_id = uuid_task E, task_name = ascii ''Prepare meeting slides'',
                        status = PENDING, created_at = now_created E,
                        updated_at = now_updated E\<rparr>,
          res_event = \<lparr>event_id = uuid_event E, ev_task_id = uuid_task E,
                        ev_task_name = ascii ''Prepare meeting slides'',
                        ev_user_id = ascii ''user-123'',
                        ev_created_at = now_created E, occurred_at = now_occurred E\<rparr>,
          res_success = True\<rparr>"
proof -
  have v: "validate_task_creation U (ascii ''Prepare meeting slides'')
             \<lparr>ctx_user_id = ascii ''user-123'', ctx_request_id = r\<rparr>
            = Inr \<lparr>is_valid = True, violations = []\<rparr>" for r
    using slides_violations[of U]
    by (simp add: validate_task_creation_def validate_context_rules_def
        ValidationResult_init_def ascii_def)
  have t: "Task_create U E (ascii ''Prepare meeting slides'') =
     Inr \<lparr>task_id = uuid_task E, task_name = ascii ''Prepare meeting slides'',
          status = PENDING, created_at = now_created E, updated_at = now_updated E\<rparr>"
    using e by (simp add: Task_create_def TaskId_init_def TaskStatus_pending_def
        TaskStatus_init_def DateTimeValue_init_def Task_init_def)
  show ?thesis
    using slides_prerequisites
    by (simp add: n u create_new_task_def create_new_task_body_def validate_input_parameters_def
        v slides_sanitized slides_security create_task_with_event_def factory_create_task_def
        slides_name t create_domain_event_def to_creation_context_def)
qed

lemma slides_response:
  assumes n: "cmd_task_name command = ascii ''Prepare meeting slides''"
    and u: "cmd_user_id command = ascii ''user-123''"
    and e: "uuid_task E \<noteq> []" "uuid_parses U (uuid_task E)" "uuid_event E \<noteq> []"
      "\<not> dt_less (now_updated E) (now_created E)"
  shows "create_task U E S command =
           (Created \<lparr>resp_task_id = uuid_task E, resp_task_name = ascii ''Prepare meeting slides'',
                     resp_status = enum_value PENDING, resp_created_at = now_created E,
                     resp_message = M_task_added, resp_request_id = cmd_request_id command\<rparr>,
            S\<lparr>repository := (repository S)(uuid_task E \<mapsto>
                   \<lparr>data_task_id = uuid_task E,
                    data_task_name = ascii ''Prepare meeting slides'',
                    data_status = enum_value PENDING, data_created_at = now_created E,
                    data_updated_at = now_updated E\<rparr>),
              published := published S @
                   [\<lparr>event_id = uuid_event E, ev_task_id = uuid_task E,
                     ev_task_name = ascii ''Prepare meeting slides'',
                     ev_user_id = ascii ''user-123'',
                     ev_created_at = now_created E, occurred_at = now_occurred E\<rparr>]\<rparr>)"
  using e
  by (simp add: create_task_def create_task_body_def slides_created[OF n u e(1,2,4)] save_def
      publish_def from_task_creation_result_def CreateTaskResponse_init_def
      task_to_storage_dict_def ascii_def)

lemma sample_env_ok:
  "uuid_task sample_env \<noteq> []" "uuid_parses ascii_runtime (uuid_task sample_env)"
  "uuid_event sample_env \<noteq> []" "\<not> dt_less (now_updated sample_env) (now_created sample_env)"
  by (simp_all add: ascii_runtime_def sample_env_def canonical_uuid_def is_hex_def ascii_def
      dt_less_def)

text \<open>
  Claim C5: for the name \<open>Prepare meeting slides\<close> and the user id \<open>user-123\<close> the
  creation succeeds, the status of the payload is the tag \<open>pending\<close>, the task id has
  UUID format, and the created task has equal creation and update times. As amended:
  whenever the generated task id is a UUID that \<open>uuid.UUID\<close> parses, the generated event
  id is not empty and the clock does not run backwards between the two readings of
  \<open>Task.create\<close>, the creation succeeds; the payload carries that task id, the name, the
  creation time and, as status, the value of the member PENDING of the enumeration,
  which is a Japanese word and not the tag \<open>pending\<close>. The stored task has the first
  clock reading as creation time and the second as update time; the two are equal only
  when the clock readings are.
\<close>

theorem slides_task_created:
  assumes n: "cmd_task_name command = ascii ''Prepare meeting slides''"
    and u: "cmd_user_id command = ascii ''user-123''"
    and e: "uuid_task E \<noteq> []" "uuid_parses U (uuid_task E)" "uuid_event E \<noteq> []"
      "\<not> dt_less (now_updated E) (now_created E)"
  shows "fst (create_task U E S command) =
           Created \<lparr>resp_task_id = uuid_task E, resp_task_name = ascii ''Prepare meeting slides'',
                     resp_status = [26410, 23436, 20102], resp_created_at = now_created E,
                     resp_message = M_task_added, resp_request_id = cmd_request_id command\<rparr>
       \<and> repository (snd (create_task U E S command)) (uuid_task E) =
           Some \<lparr>data_task_id = uuid_task E, data_task_name = ascii ''Prepare meeting slides'',
                  data_status = [26410, 23436, 20102], data_created_at = now_created E,
                  data_updated_at = now_updated E\<rparr>"
  using slides_response[OF n u e, of S] by simp

theorem slides_task_created_witness:
  "cmd_task_name (sample_command (ascii ''Prepare meeting slides'') (ascii ''user-123'')) =
     ascii ''Prepare meeting slides''
   \<and> cmd_user_id (sample_command (ascii ''Prepare meeting slides'') (ascii ''user-123'')) =
     ascii ''user-123''
   \<and> uuid_task sample_env \<noteq> [] \<and> uuid_parses ascii_runtime (uuid_task sample_env)
   \<and> uuid_event sample_env \<noteq> []
   \<and> \<not> dt_less (now_updated sample_env) (now_created sample_env)
   \<and> response_status (fst (create_task ascii_runtime sample_env empty_state
        (sample_command (ascii ''Prepare meeting slides'') (ascii ''user-123'')))) =
     Some [26410, 23436, 20102]"
proof -
  have h1: "cmd_task_name (sample_command (ascii ''Prepare meeting slides'') (ascii ''user-123'')) =
     ascii ''Prepare meeting slides''"
    and h2: "cmd_user_id (sample_command (ascii ''Prepare meeting slides'') (ascii ''user-123'')) =
     ascii ''user-123''"
    by simp_all
  show ?thesis
    using slides_task_created[OF h1 h2 sample_env_ok, of empty_state] h1 h2 sample_env_ok
    by simp
qed

theorem slides_status_not_pending:
  "response_status (fst (create_task ascii_runtime sample_env empty_state
     (sample_command (ascii ''Prepare meeting slides'') (ascii ''user-123'')))) =
     Some [26410, 23436, 20102]
   \<and> [26410, 23436, 20102] \<noteq> ascii ''pending''
   \<and> map_option data_created_at (repository (snd (create_task ascii_runtime sample_env empty_state
        (sample_command (ascii ''Prepare meeting slides'') (ascii ''user-123''))))
        (uuid_task sample_env)) = Some (DateTime 1700000000 123456)
   \<and> map_option data_updated_at (repository (snd (create_task ascii_runtime sample_env empty_state
        (sample_command (ascii ''Prepare meeting slides'') (ascii ''user-123''))))
        (uuid_task sample_env)) = Some (DateTime 1700000000 123460)"
proof -
  have "now_created sample_env = DateTime 1700000000 123456"
    "now_updated sample_env = DateTime 1700000000 123460"
    by (simp_all add: sample_env_def)
  with slides_response[OF _ _ sample_env_ok, of _ empty_state] show ?thesis
    by (simp add: ascii_def)
qed

section \<open>The repository\<close>

lemma find_by_id_unknown: "st tid = None \<Longrightarrow> find_by_id U now_c now_u st tid = None"
  by (simp add: find_by_id_def)

lemma TaskStatus_roundtrip: "TaskStatus_init (Some (enum_value s)) = Inr s"
  by (cases s) (simp_all add: TaskStatus_init_def)

text \<open>A saved task is found again under its id when its id and its name pass their
  constructors again, the microsecond fields of the clock readings are below 900000
  and its timestamps are not later than the bounds.\<close>

lemma find_by_id_after_save:
  assumes "TaskId_init U (task_id t) = Inr (task_id t)"
    and "TaskName_init U (task_name t) = Inr n"
    and "microsecond now_c < 900000" "microsecond now_u < 900000"
    and "\<not> dt_less (DateTime (seconds now_c) (microsecond now_c + 100000)) (created_at t)"
    and "\<not> dt_less (DateTime (seconds now_u) (microsecond now_u + 100000)) (updated_at t)"
    and "\<not> dt_less (updated_at t) (created_at t)"
    and "save st t = Inr (t', st')"
  shows "\<exists>r. find_by_id U now_c now_u st' (task_id t) = Some r \<and> Task_eq r t"
  using assms
  by (auto simp: save_def find_by_id_def storage_dict_to_task_def restore_task_def
      task_to_storage_dict_def TaskStatus_roundtrip DateTimeValue_init_def replace_microsecond_def
      Task_init_def Task_eq_def)

lemma sample_task_id: "TaskId_init ascii_runtime (task_id sample_task) = Inr (task_id sample_task)"
  using sample_env_ok(2) by (simp add: TaskId_init_def sample_task_def sample_env_def ascii_def)

text \<open>
  Claim C10: after \<open>save(t)\<close> succeeds, \<open>find_by_id(t.task_id)\<close> returns a task that is
  equal to \<open>t\<close>, and \<open>None\<close> for an id that was never saved. \<open>find_by_id\<close> rebuilds the
  task with \<open>restore_task\<close>, whose timestamp constructors add 100000 to the microsecond
  field of the clock reading; when the lookup happens while that field is 900000 or
  more, the restoration raises and \<open>find_by_id\<close> returns \<open>None\<close> for a task that was
  created by \<open>Task.create\<close> and saved.
\<close>

theorem find_by_id_misses_saved_task:
  "Task_create ascii_runtime sample_env (ascii ''Prepare meeting slides'') = Inr sample_task
   \<and> save Map.empty sample_task =
       Inr (sample_task, [task_id sample_task \<mapsto> task_to_storage_dict sample_task])
   \<and> find_by_id ascii_runtime (DateTime 1700000001 950000) (DateTime 1700000001 950000)
        [task_id sample_task \<mapsto> task_to_storage_dict sample_task] (task_id sample_task) = None"
proof -
  have a: "Task_create ascii_runtime sample_env (ascii ''Prepare meeting slides'') = Inr sample_task"
    using sample_task_id
    by (simp add: Task_create_def TaskStatus_pending_def TaskStatus_init_def
        DateTimeValue_init_def Task_init_def sample_task_def sample_env_def dt_less_def)
  have b: "find_by_id ascii_runtime (DateTime 1700000001 950000) (DateTime 1700000001 950000)
        [task_id sample_task \<mapsto> task_to_storage_dict sample_task] (task_id sample_task) = None"
    using sample_task_id
    by (simp add: find_by_id_def storage_dict_to_task_def restore_task_def
        task_to_storage_dict_def DateTimeValue_init_def replace_microsecond_def
        TaskStatus_init_def sample_task_def slides_name)
  show ?thesis using a b by (simp add: save_def)
qed

end
